theory Spec2Isabelle
  imports Complex_Main
begin

section \<open>Values decoded from JSON, with the Python operations the harness applies to them\<close>

text \<open>
  \<open>response.json()\<close> yields a Python value built from \<open>dict\<close>, \<open>list\<close>, \<open>str\<close>,
  \<open>int\<close>, \<open>float\<close>, \<open>bool\<close> and \<open>None\<close>. A float is kept by the number it denotes
  (every double is a rational), with the negative zero, the two infinities and NaN apart.
  A \<open>dict\<close> is an association list; a key is looked up by \<open>map_of\<close>, so the first binding
  of a key is the one the dict holds.
\<close>

datatype pyfloat = Finite rat | NegZero | PosInf | NegInf | NaN

datatype json =
    JNull
  | JBool bool
  | JInt int
  | JFloat pyfloat
  | JStr string
  | JArr "json list"
  | JObj "(string \<times> json) list"

text \<open>The number a value compares as: \<open>bool\<close> is a subclass of \<open>int\<close>, and \<open>-0.0 == 0\<close>.\<close>

fun num_of :: "json \<Rightarrow> pyfloat option" where
  "num_of (JBool b) = Some (Finite (if b then 1 else 0))"
| "num_of (JInt i) = Some (Finite (of_int i))"
| "num_of (JFloat NegZero) = Some (Finite 0)"
| "num_of (JFloat f) = Some f"
| "num_of _ = None"

text \<open>
  Python's \<open>a == b\<close> on decoded values. Inside a list or a dict the elements are compared by
  identity first, which makes the decoder's single NaN object equal to itself there, while
  \<open>nan == nan\<close> is false.
\<close>

fun py_eq :: "json \<Rightarrow> json \<Rightarrow> bool" where
  "py_eq (JArr xs) b =
     (case b of
        JArr ys \<Rightarrow> list_all2 (\<lambda>x y. (x = JFloat NaN \<and> y = JFloat NaN) \<or> py_eq x y) xs ys
      | _ \<Rightarrow> False)"
| "py_eq (JObj kvs) b =
     (case b of
        JObj kws \<Rightarrow>
          set (map fst kvs) = set (map fst kws) \<and>
          list_all (\<lambda>(k, v). map_of kvs k \<noteq> Some v \<or>
             (case map_of kws k of
                None \<Rightarrow> False
              | Some v' \<Rightarrow> (v = JFloat NaN \<and> v' = JFloat NaN) \<or> py_eq v v')) kvs
      | _ \<Rightarrow> False)"
| "py_eq (JStr s) b = (case b of JStr t \<Rightarrow> s = t | _ \<Rightarrow> False)"
| "py_eq JNull b = (b = JNull)"
| "py_eq a b =
     (case (num_of a, num_of b) of
        (Some x, Some y) \<Rightarrow> x \<noteq> NaN \<and> x = y
      | _ \<Rightarrow> False)"

text \<open>\<open>needle in hay\<close> on two strings: \<open>needle\<close> occurs in \<open>hay\<close> as a contiguous run.\<close>

fun str_contains :: "string \<Rightarrow> string \<Rightarrow> bool" where
  "str_contains needle [] = (needle = [])"
| "str_contains needle (c # cs) =
     (take (length needle) (c # cs) = needle \<or> str_contains needle cs)"

section \<open>Formatted text and exceptions\<close>

text \<open>
  The body of a response is either JSON text, kept as the value it decodes to, or text that
  is not JSON. An f-string is the list of its parts. \<open>Fmt v\<close> stands for \<open>str(v)\<close> of an
  interpolated value, \<open>Dumps v\<close> for \<open>json.dumps(v, indent=2)\<close> and \<open>BodyText b\<close> for
  \<open>response.text\<close>; the three stay symbolic. \<open>Glyph\<close> names the pictograph a message
  starts with.
\<close>

datatype glyph = Rocket | TestTube | CheckMark | CrossMark | Broom | Party | Memo

datatype body = Json json | Raw string

datatype fpart = Lit string | Glyph glyph | Fmt json | Dumps json | BodyText body

type_synonym fstr = "fpart list"

text \<open>
  The exceptions the script can meet. \<open>ConnectionError\<close> is
  \<open>requests.exceptions.ConnectionError\<close> with its subclasses; \<open>RequestException\<close> is any other
  failure raised by the HTTP client, by name; \<open>JSONDecodeError\<close> is raised by
  \<open>response.json()\<close>; the last three come from operations on decoded values.
\<close>

datatype exn =
    ConnectionError
  | AssertionError fstr
  | RequestException string
  | JSONDecodeError
  | KeyError string
  | TypeError
  | AttributeError

text \<open>\<open>needle in v\<close> for a string needle: substring, list membership or dict key.\<close>

fun py_in :: "string \<Rightarrow> json \<Rightarrow> exn + bool" where
  "py_in needle (JStr s) = Inr (str_contains needle s)"
| "py_in needle (JArr xs) = Inr (list_ex (\<lambda>x. py_eq x (JStr needle)) xs)"
| "py_in needle (JObj kvs) = Inr (needle \<in> set (map fst kvs))"
| "py_in needle _ = Inl TypeError"

text \<open>\<open>v[key]\<close> for a string key.\<close>

fun py_getitem :: "json \<Rightarrow> string \<Rightarrow> exn + json" where
  "py_getitem (JObj kvs) key = (case map_of kvs key of None \<Rightarrow> Inl (KeyError key) | Some v \<Rightarrow> Inr v)"
| "py_getitem _ key = Inl TypeError"

text \<open>\<open>v.get(key, default)\<close>: only a dict has the method.\<close>

fun py_get :: "json \<Rightarrow> string \<Rightarrow> json \<Rightarrow> exn + json" where
  "py_get (JObj kvs) key dflt = (case map_of kvs key of None \<Rightarrow> Inr dflt | Some v \<Rightarrow> Inr v)"
| "py_get _ key dflt = Inl AttributeError"

text \<open>\<open>isinstance(v, list)\<close> and \<open>len\<close> of a list.\<close>

fun is_list :: "json \<Rightarrow> bool" where
  "is_list (JArr xs) = True"
| "is_list _ = False"

fun py_len :: "json \<Rightarrow> exn + int" where
  "py_len (JArr xs) = Inr (int (length xs))"
| "py_len (JObj kvs) = Inr (int (card (set (map fst kvs))))"
| "py_len (JStr s) = Inr (int (length s))"
| "py_len _ = Inl TypeError"

text \<open>\<open>str(n)\<close> of an integer, in decimal.\<close>

definition digit_char :: "nat \<Rightarrow> char" where
  "digit_char d = ''0123456789'' ! d"

function str_nat :: "nat \<Rightarrow> string" where
  "str_nat n = (if n < 10 then [digit_char n] else str_nat (n div 10) @ [digit_char (n mod 10)])"
  by pat_completeness auto
termination
  by (relation "measure (\<lambda>n. n)") auto

definition str_int :: "int \<Rightarrow> string" where
  "str_int i = (if i < 0 then CHR ''-'' # str_nat (nat (- i)) else str_nat (nat i))"

section \<open>The HTTP client and the server under test\<close>

datatype http_method = GET | POST | PUT | DELETE

record request =
  verb :: http_method
  url :: fstr
  json_body :: "json option"
  headers :: "(string \<times> fstr) list"

text \<open>A response as the script reads it: \<open>status_code\<close> and the body.\<close>

record response =
  status_code :: int
  body :: body

datatype outcome = Responded response | ConnectionFailed | RequestFailed string

text \<open>
  The server is not part of the repository: it is any function from its own state and a
  request to an outcome and a new state.
\<close>

type_synonym 's server = "'s \<Rightarrow> request \<Rightarrow> outcome \<times> 's"

section \<open>The state of a run\<close>

datatype out = Line fstr | ExcLine fstr exn | Traceback exn

text \<open>
  The module's global variables, the server's state, the requests issued so far and the
  lines printed so far. \<open>ExcLine p e\<close> is a printed line made of \<open>p\<close> followed by \<open>str(e)\<close>;
  \<open>Traceback e\<close> is the output of \<open>traceback.print_exc()\<close>.
\<close>

record 's world =
  auth_token :: json
  user_id :: json
  post_id :: json
  comment_id :: json
  verification_token :: json
  server :: 's
  sent :: "request list"
  stdout :: "out list"

definition initial_world :: "'s \<Rightarrow> 's world" where
  "initial_world s =
     \<lparr>auth_token = JNull, user_id = JNull, post_id = JNull, comment_id = JNull,
      verification_token = JNull, server = s, sent = [], stdout = []\<rparr>"

text \<open>A statement either raises or returns a value, and leaves a new state in both cases.\<close>

type_synonym ('s, 'a) prog = "'s world \<Rightarrow> (exn + 'a) \<times> 's world"

definition py_return :: "'a \<Rightarrow> ('s, 'a) prog" where
  "py_return x w = (Inr x, w)"

definition py_raise :: "exn \<Rightarrow> ('s, 'a) prog" where
  "py_raise e w = (Inl e, w)"

definition py_lift :: "exn + 'a \<Rightarrow> ('s, 'a) prog" where
  "py_lift r w = (r, w)"

definition py_bind :: "('s, 'a) prog \<Rightarrow> ('a \<Rightarrow> ('s, 'b) prog) \<Rightarrow> ('s, 'b) prog" where
  "py_bind m k w = (case m w of (Inl e, w') \<Rightarrow> (Inl e, w') | (Inr x, w') \<Rightarrow> k x w')"

definition py_read :: "('s world \<Rightarrow> 'a) \<Rightarrow> ('s, 'a) prog" where
  "py_read f w = (Inr (f w), w)"

definition py_write :: "('s world \<Rightarrow> 's world) \<Rightarrow> ('s, unit) prog" where
  "py_write f w = (Inr (), f w)"

definition py_print :: "fstr \<Rightarrow> ('s, unit) prog" where
  "py_print l w = (Inr (), w\<lparr>stdout := stdout w @ [Line l]\<rparr>)"

definition py_assert :: "bool \<Rightarrow> fstr \<Rightarrow> ('s, unit) prog" where
  "py_assert b msg = (if b then py_return () else py_raise (AssertionError msg))"

text \<open>\<open>try: m except ...: h\<close>.\<close>

definition py_try :: "('s, 'a) prog \<Rightarrow> (exn \<Rightarrow> ('s, 'a) prog) \<Rightarrow> ('s, 'a) prog" where
  "py_try m h w = (case m w of (Inl e, w') \<Rightarrow> h e w' | (Inr x, w') \<Rightarrow> (Inr x, w'))"

text \<open>One call of the HTTP client: the request is logged and the server moves on.\<close>

definition requests_call :: "'s server \<Rightarrow> request \<Rightarrow> ('s, response) prog" where
  "requests_call srv rq w =
     (case srv (server w) rq of
        (oc, s') \<Rightarrow>
          (case oc of
             Responded r \<Rightarrow> Inr r
           | ConnectionFailed \<Rightarrow> Inl ConnectionError
           | RequestFailed name \<Rightarrow> Inl (RequestException name),
           w\<lparr>server := s', sent := sent w @ [rq]\<rparr>))"

definition requests_post :: "'s server \<Rightarrow> fstr \<Rightarrow> json option \<Rightarrow> (string \<times> fstr) list \<Rightarrow> ('s, response) prog" where
  "requests_post srv u j h = requests_call srv \<lparr>verb = POST, url = u, json_body = j, headers = h\<rparr>"

definition requests_get :: "'s server \<Rightarrow> fstr \<Rightarrow> (string \<times> fstr) list \<Rightarrow> ('s, response) prog" where
  "requests_get srv u h = requests_call srv \<lparr>verb = GET, url = u, json_body = None, headers = h\<rparr>"

definition requests_put :: "'s server \<Rightarrow> fstr \<Rightarrow> json option \<Rightarrow> (string \<times> fstr) list \<Rightarrow> ('s, response) prog" where
  "requests_put srv u j h = requests_call srv \<lparr>verb = PUT, url = u, json_body = j, headers = h\<rparr>"

definition requests_delete :: "'s server \<Rightarrow> fstr \<Rightarrow> (string \<times> fstr) list \<Rightarrow> ('s, response) prog" where
  "requests_delete srv u h = requests_call srv \<lparr>verb = DELETE, url = u, json_body = None, headers = h\<rparr>"

text \<open>\<open>response.json()\<close> raises when the body is not JSON.\<close>

definition response_json :: "response \<Rightarrow> ('s, json) prog" where
  "response_json r = py_lift (case body r of Raw t \<Rightarrow> Inl JSONDecodeError | Json v \<Rightarrow> Inr v)"

section \<open>The test script\<close>

definition BASE_URL :: string where
  "BASE_URL = ''http://localhost:8000''"

definition API_BASE :: string where
  "API_BASE = BASE_URL @ ''/api''"

text \<open>\<open>timestamp = int(time.time())\<close> is read once when the module loads; it is the parameter \<open>ts\<close>.\<close>

definition test_user :: "int \<Rightarrow> (string \<times> json) list" where
  "test_user ts =
     [(''username'', JStr (''testuser_'' @ str_int ts)),
      (''email'', JStr (''test_'' @ str_int ts @ ''@example.com'')),
      (''password'', JStr ''password123'')]"

definition rule60 :: string where
  "rule60 = replicate 60 (CHR ''='')"

definition print_test_header :: "string \<Rightarrow> ('s, unit) prog" where
  "print_test_header test_name =
     py_bind (py_print [Lit (CHR 0x0A # rule60)]) (\<lambda>_.
     py_bind (py_print [Glyph TestTube, Lit (CHR '' '' # test_name)]) (\<lambda>_.
     py_print [Lit rule60]))"

definition print_test_result :: "bool \<Rightarrow> string \<Rightarrow> ('s, unit) prog" where
  "print_test_result success message =
     (if success then py_print [Glyph CheckMark, Lit (CHR '' '' # message)]
      else py_print [Glyph CrossMark, Lit (CHR '' '' # message)])"

definition cleanup_test_data :: "('s, json) prog" where
  "cleanup_test_data =
     py_bind (py_print [Lit [CHR 0x0A], Glyph Broom, Lit '' Cleaning up test data...'']) (\<lambda>_.
     py_bind (py_print [Glyph CheckMark, Lit '' Test data cleanup completed'']) (\<lambda>_.
     py_return JNull))"

definition print_status :: "response \<Rightarrow> ('s, unit) prog" where
  "print_status r = py_print [Lit ''Status: '', Fmt (JInt (status_code r))]"

definition print_response :: "json \<Rightarrow> ('s, unit) prog" where
  "print_response data = py_print [Lit ''Response: '', Dumps data]"

definition test_registration :: "'s server \<Rightarrow> int \<Rightarrow> ('s, json) prog" where
  "test_registration srv ts =
     py_bind (print_test_header ''User Registration'') (\<lambda>_.
     py_bind (requests_post srv [Lit (API_BASE @ ''/register'')] (Some (JObj (test_user ts))) []) (\<lambda>response.
     py_bind (print_status response) (\<lambda>_.
     py_bind (py_assert (status_code response = 201)
                [Lit ''Registration failed with status '', Fmt (JInt (status_code response))]) (\<lambda>_.
     py_bind (response_json response) (\<lambda>data.
     py_bind (py_lift (py_get data ''token'' JNull)) (\<lambda>tok.
     py_bind (py_write (\<lambda>w. w\<lparr>auth_token := tok\<rparr>)) (\<lambda>_.
     py_bind (py_lift (py_get data ''user'' (JObj []))) (\<lambda>u.
     py_bind (py_lift (py_get u ''id'' JNull)) (\<lambda>uid.
     py_bind (py_write (\<lambda>w. w\<lparr>user_id := uid\<rparr>)) (\<lambda>_.
     py_bind (py_read auth_token) (\<lambda>t.
     py_bind (py_assert (t \<noteq> JNull) [Lit ''No token received'']) (\<lambda>_.
     py_bind (py_read user_id) (\<lambda>i.
     py_bind (py_assert (i \<noteq> JNull) [Lit ''No user ID received'']) (\<lambda>_.
     py_bind (print_response data) (\<lambda>_.
     py_bind (print_test_result True ''Registration successful!'') (\<lambda>_.
     py_return (JBool True)))))))))))))))))"

definition test_login_before_verification :: "'s server \<Rightarrow> int \<Rightarrow> ('s, json) prog" where
  "test_login_before_verification srv ts =
     py_bind (print_test_header ''User Login Before Email Verification'') (\<lambda>_.
     py_bind (requests_post srv [Lit (API_BASE @ ''/login'')] (Some (JObj (test_user ts))) []) (\<lambda>response.
     py_bind (print_status response) (\<lambda>_.
     py_bind (py_assert (status_code response = 401)
                [Lit ''Login should fail before verification, got '', Fmt (JInt (status_code response))]) (\<lambda>_.
     py_bind (response_json response) (\<lambda>data.
     py_bind (py_lift (py_get data ''detail'' (JStr []))) (\<lambda>detail.
     py_bind (py_lift (py_in ''Please verify your email'' detail)) (\<lambda>found.
     py_bind (py_assert found [Lit ''Wrong error message'']) (\<lambda>_.
     py_bind (print_response data) (\<lambda>_.
     py_bind (print_test_result True ''Login correctly blocked - email not verified!'') (\<lambda>_.
     py_return (JBool True)))))))))))"

definition test_email_verification_request :: "'s server \<Rightarrow> int \<Rightarrow> ('s, json) prog" where
  "test_email_verification_request srv ts =
     py_bind (print_test_header ''Email Verification Request'') (\<lambda>_.
     py_bind (py_lift (py_getitem (JObj (test_user ts)) ''email'')) (\<lambda>email.
     py_bind (requests_post srv [Lit (API_BASE @ ''/email-verification/request'')]
                (Some (JObj [(''email'', email)])) []) (\<lambda>response.
     py_bind (print_status response) (\<lambda>_.
     py_bind (py_assert (status_code response = 200)
                [Lit ''Email verification request failed with status '', Fmt (JInt (status_code response))]) (\<lambda>_.
     py_bind (response_json response) (\<lambda>data.
     py_bind (py_lift (py_in ''message'' data)) (\<lambda>found.
     py_bind (py_assert found [Lit ''No message in response'']) (\<lambda>_.
     py_bind (print_response data) (\<lambda>_.
     py_bind (print_test_result True ''Email verification request successful!'') (\<lambda>_.
     py_return (JBool True)))))))))))"

definition dummy_token :: string where
  "dummy_token = ''dummy_token_for_testing''"

definition test_email_verification_confirm :: "'s server \<Rightarrow> ('s, json) prog" where
  "test_email_verification_confirm srv =
     py_bind (print_test_header ''Email Verification Confirmation'') (\<lambda>_.
     py_bind (requests_post srv [Lit (API_BASE @ ''/email-verification/confirm?token='' @ dummy_token)]
                None []) (\<lambda>response.
     py_bind (print_status response) (\<lambda>_.
     py_bind (py_assert (status_code response = 400)
                [Lit ''Invalid token should be rejected, got '', Fmt (JInt (status_code response))]) (\<lambda>_.
     py_bind (response_json response) (\<lambda>data.
     py_bind (py_lift (py_get data ''detail'' (JStr []))) (\<lambda>detail.
     py_bind (py_lift (py_in ''Invalid or expired'' detail)) (\<lambda>found.
     py_bind (py_assert found [Lit ''Wrong error message for invalid token'']) (\<lambda>_.
     py_bind (print_response data) (\<lambda>_.
     py_bind (print_test_result True ''Invalid token correctly rejected!'') (\<lambda>_.
     py_bind (py_print [Lit ''Note: In real testing, you'', Lit [CHR 0x27],
                Lit ''d use a valid token from the database'']) (\<lambda>_.
     py_return (JBool True))))))))))))"

definition test_login :: "'s server \<Rightarrow> int \<Rightarrow> ('s, json) prog" where
  "test_login srv ts =
     py_bind (print_test_header ''User Login After Email Verification'') (\<lambda>_.
     py_bind (requests_post srv [Lit (API_BASE @ ''/login'')] (Some (JObj (test_user ts))) []) (\<lambda>response.
     py_bind (print_status response) (\<lambda>_.
     if status_code response = 200 then
       py_bind (response_json response) (\<lambda>data.
       py_bind (py_lift (py_get data ''token'' JNull)) (\<lambda>tok.
       py_bind (py_write (\<lambda>w. w\<lparr>auth_token := tok\<rparr>)) (\<lambda>_.
       py_bind (py_lift (py_get data ''user'' (JObj []))) (\<lambda>u.
       py_bind (py_lift (py_get u ''id'' JNull)) (\<lambda>uid.
       py_bind (py_write (\<lambda>w. w\<lparr>user_id := uid\<rparr>)) (\<lambda>_.
       py_bind (py_read auth_token) (\<lambda>t.
       py_bind (py_assert (t \<noteq> JNull) [Lit ''No token received'']) (\<lambda>_.
       py_bind (py_read user_id) (\<lambda>i.
       py_bind (py_assert (i \<noteq> JNull) [Lit ''No user ID received'']) (\<lambda>_.
       py_bind (print_response data) (\<lambda>_.
       py_bind (print_test_result True ''Login successful!'') (\<lambda>_.
       py_return (JBool True)))))))))))))
     else
       py_bind (py_print [Lit ''Response: '', BodyText (body response)]) (\<lambda>_.
       py_bind (print_test_result False ''Login failed - email not verified yet'') (\<lambda>_.
       py_return (JBool False))))))"

definition bearer :: "json \<Rightarrow> (string \<times> fstr) list" where
  "bearer tok = [(''Authorization'', [Lit ''Bearer '', Fmt tok])]"

definition test_profile :: "'s server \<Rightarrow> int \<Rightarrow> ('s, json) prog" where
  "test_profile srv ts =
     py_bind (print_test_header ''User Profile'') (\<lambda>_.
     py_bind (py_read auth_token) (\<lambda>tok.
     py_bind (py_assert (tok \<noteq> JNull) [Lit ''No auth token available'']) (\<lambda>_.
     py_bind (requests_get srv [Lit (API_BASE @ ''/profile'')] (bearer tok)) (\<lambda>response.
     py_bind (print_status response) (\<lambda>_.
     if status_code response = 200 then
       py_bind (response_json response) (\<lambda>data.
       py_bind (py_lift (py_in ''user'' data)) (\<lambda>found.
       py_bind (py_assert found [Lit ''No user data in response'']) (\<lambda>_.
       py_bind (py_lift (py_getitem data ''user'')) (\<lambda>u.
       py_bind (py_lift (py_getitem u ''email'')) (\<lambda>em.
       py_bind (py_lift (py_getitem (JObj (test_user ts)) ''email'')) (\<lambda>email.
       py_bind (py_assert (py_eq em email) [Lit ''Wrong user email'']) (\<lambda>_.
       py_bind (print_response data) (\<lambda>_.
       py_bind (print_test_result True ''Profile retrieved successfully!'') (\<lambda>_.
       py_return (JBool True))))))))))
     else
       py_bind (py_print [Lit ''Response: '', BodyText (body response)]) (\<lambda>_.
       py_bind (print_test_result False ''Profile retrieval failed!'') (\<lambda>_.
       py_return (JBool False))))))))"

definition post_text :: string where
  "post_text = ''This is a test post created by the automated test suite!''"

definition test_create_post :: "'s server \<Rightarrow> ('s, json) prog" where
  "test_create_post srv =
     py_bind (print_test_header ''Create Post'') (\<lambda>_.
     py_bind (py_read auth_token) (\<lambda>tok.
     py_bind (py_assert (tok \<noteq> JNull) [Lit ''No auth token available'']) (\<lambda>_.
     py_bind (requests_post srv [Lit (API_BASE @ ''/posts'')]
                (Some (JObj [(''text'', JStr post_text)])) (bearer tok)) (\<lambda>response.
     py_bind (print_status response) (\<lambda>_.
     py_bind (py_assert (status_code response = 201)
                [Lit ''Post creation failed with status '', Fmt (JInt (status_code response))]) (\<lambda>_.
     py_bind (response_json response) (\<lambda>data.
     py_bind (py_lift (py_get data ''id'' JNull)) (\<lambda>pid.
     py_bind (py_write (\<lambda>w. w\<lparr>post_id := pid\<rparr>)) (\<lambda>_.
     py_bind (py_read post_id) (\<lambda>p.
     py_bind (py_assert (p \<noteq> JNull) [Lit ''No post ID received'']) (\<lambda>_.
     py_bind (py_lift (py_getitem data ''text'')) (\<lambda>t.
     py_bind (py_assert (py_eq t (JStr post_text))
                [Lit ''Post text doesn'', Lit [CHR 0x27], Lit ''t match'']) (\<lambda>_.
     py_bind (py_lift (py_in ''created_at'' data)) (\<lambda>found.
     py_bind (py_assert found [Lit ''No created_at timestamp'']) (\<lambda>_.
     py_bind (print_response data) (\<lambda>_.
     py_bind (print_test_result True ''Post creation successful!'') (\<lambda>_.
     py_return (JBool True))))))))))))))))))"

definition test_get_all_posts :: "'s server \<Rightarrow> ('s, json) prog" where
  "test_get_all_posts srv =
     py_bind (print_test_header ''Get All Posts'') (\<lambda>_.
     py_bind (requests_get srv [Lit (API_BASE @ ''/posts'')] []) (\<lambda>response.
     py_bind (print_status response) (\<lambda>_.
     py_bind (py_assert (status_code response = 200)
                [Lit ''Get posts failed with status '', Fmt (JInt (status_code response))]) (\<lambda>_.
     py_bind (response_json response) (\<lambda>data.
     py_bind (py_assert (is_list data) [Lit ''Response should be a list'']) (\<lambda>_.
     py_bind (py_lift (py_len data)) (\<lambda>n.
     py_bind (py_print [Lit ''Found '', Fmt (JInt n), Lit '' posts'']) (\<lambda>_.
     py_bind (print_response data) (\<lambda>_.
     py_bind (print_test_result True ''Get all posts successful!'') (\<lambda>_.
     py_return (JBool True)))))))))))"

definition test_get_single_post :: "'s server \<Rightarrow> ('s, json) prog" where
  "test_get_single_post srv =
     py_bind (print_test_header ''Get Single Post'') (\<lambda>_.
     py_bind (py_read post_id) (\<lambda>pid.
     py_bind (py_assert (pid \<noteq> JNull) [Lit ''No post ID available'']) (\<lambda>_.
     py_bind (requests_get srv [Lit (API_BASE @ ''/posts/''), Fmt pid] []) (\<lambda>response.
     py_bind (print_status response) (\<lambda>_.
     py_bind (py_assert (status_code response = 200)
                [Lit ''Get single post failed with status '', Fmt (JInt (status_code response))]) (\<lambda>_.
     py_bind (response_json response) (\<lambda>data.
     py_bind (py_lift (py_getitem data ''id'')) (\<lambda>i.
     py_bind (py_assert (py_eq i pid) [Lit ''Wrong post ID'']) (\<lambda>_.
     py_bind (py_lift (py_in ''text'' data)) (\<lambda>has_text.
     py_bind (py_assert has_text [Lit ''No text in post'']) (\<lambda>_.
     py_bind (py_lift (py_in ''created_at'' data)) (\<lambda>has_created.
     py_bind (py_assert has_created [Lit ''No created_at timestamp'']) (\<lambda>_.
     py_bind (print_response data) (\<lambda>_.
     py_bind (print_test_result True ''Get single post successful!'') (\<lambda>_.
     py_return (JBool True))))))))))))))))"

definition comment_text :: string where
  "comment_text = ''This is a test comment!''"

definition test_create_comment :: "'s server \<Rightarrow> ('s, json) prog" where
  "test_create_comment srv =
     py_bind (print_test_header ''Create Comment'') (\<lambda>_.
     py_bind (py_read auth_token) (\<lambda>tok.
     py_bind (py_assert (tok \<noteq> JNull) [Lit ''No auth token available'']) (\<lambda>_.
     py_bind (py_read post_id) (\<lambda>pid.
     py_bind (py_assert (pid \<noteq> JNull) [Lit ''No post ID available'']) (\<lambda>_.
     py_bind (requests_post srv [Lit (API_BASE @ ''/comments?post_id=''), Fmt pid]
                (Some (JObj [(''text'', JStr comment_text)])) (bearer tok)) (\<lambda>response.
     py_bind (print_status response) (\<lambda>_.
     py_bind (py_assert (status_code response = 201)
                [Lit ''Comment creation failed with status '', Fmt (JInt (status_code response))]) (\<lambda>_.
     py_bind (response_json response) (\<lambda>data.
     py_bind (py_lift (py_get data ''id'' JNull)) (\<lambda>cid.
     py_bind (py_write (\<lambda>w. w\<lparr>comment_id := cid\<rparr>)) (\<lambda>_.
     py_bind (py_read comment_id) (\<lambda>c.
     py_bind (py_assert (c \<noteq> JNull) [Lit ''No comment ID received'']) (\<lambda>_.
     py_bind (py_lift (py_getitem data ''text'')) (\<lambda>t.
     py_bind (py_assert (py_eq t (JStr comment_text))
                [Lit ''Comment text doesn'', Lit [CHR 0x27], Lit ''t match'']) (\<lambda>_.
     py_bind (py_lift (py_getitem data ''post_id'')) (\<lambda>p.
     py_bind (py_assert (py_eq p pid) [Lit ''Wrong post ID in comment'']) (\<lambda>_.
     py_bind (py_lift (py_in ''created_at'' data)) (\<lambda>found.
     py_bind (py_assert found [Lit ''No created_at timestamp'']) (\<lambda>_.
     py_bind (print_response data) (\<lambda>_.
     py_bind (print_test_result True ''Comment creation successful!'') (\<lambda>_.
     py_return (JBool True))))))))))))))))))))))"

definition test_get_comments :: "'s server \<Rightarrow> ('s, json) prog" where
  "test_get_comments srv =
     py_bind (print_test_header ''Get Comments'') (\<lambda>_.
     py_bind (py_read post_id) (\<lambda>pid.
     py_bind (py_assert (pid \<noteq> JNull) [Lit ''No post ID available'']) (\<lambda>_.
     py_bind (requests_get srv [Lit (API_BASE @ ''/''), Fmt pid, Lit ''/comments''] []) (\<lambda>response.
     py_bind (print_status response) (\<lambda>_.
     py_bind (py_assert (status_code response = 200)
                [Lit ''Get comments failed with status '', Fmt (JInt (status_code response))]) (\<lambda>_.
     py_bind (response_json response) (\<lambda>data.
     py_bind (py_assert (is_list data) [Lit ''Response should be a list'']) (\<lambda>_.
     py_bind (py_lift (py_len data)) (\<lambda>n.
     py_bind (py_print [Lit ''Found '', Fmt (JInt n), Lit '' comments'']) (\<lambda>_.
     py_bind (print_response data) (\<lambda>_.
     py_bind (print_test_result True ''Get comments successful!'') (\<lambda>_.
     py_return (JBool True)))))))))))))"

definition test_like_post :: "'s server \<Rightarrow> ('s, json) prog" where
  "test_like_post srv =
     py_bind (print_test_header ''Like Post'') (\<lambda>_.
     py_bind (py_read auth_token) (\<lambda>tok.
     py_bind (py_assert (tok \<noteq> JNull) [Lit ''No auth token available'']) (\<lambda>_.
     py_bind (py_read post_id) (\<lambda>pid.
     py_bind (py_assert (pid \<noteq> JNull) [Lit ''No post ID available'']) (\<lambda>_.
     py_bind (requests_post srv [Lit (API_BASE @ ''/likes?post_id=''), Fmt pid] None (bearer tok)) (\<lambda>response.
     py_bind (print_status response) (\<lambda>_.
     py_bind (py_assert (status_code response = 201)
                [Lit ''Like post failed with status '', Fmt (JInt (status_code response))]) (\<lambda>_.
     py_bind (response_json response) (\<lambda>data.
     py_bind (py_lift (py_in ''id'' data)) (\<lambda>found.
     py_bind (py_assert found [Lit ''No like ID received'']) (\<lambda>_.
     py_bind (py_lift (py_getitem data ''post_id'')) (\<lambda>p.
     py_bind (py_assert (py_eq p pid) [Lit ''Wrong post ID in like'']) (\<lambda>_.
     py_bind (py_lift (py_getitem data ''user_id'')) (\<lambda>u.
     py_bind (py_read user_id) (\<lambda>uid.
     py_bind (py_assert (py_eq u uid) [Lit ''Wrong user ID in like'']) (\<lambda>_.
     py_bind (print_response data) (\<lambda>_.
     py_bind (print_test_result True ''Post liked successfully!'') (\<lambda>_.
     py_return (JBool True)))))))))))))))))))"

definition test_unlike_post :: "'s server \<Rightarrow> ('s, json) prog" where
  "test_unlike_post srv =
     py_bind (print_test_header ''Unlike Post'') (\<lambda>_.
     py_bind (py_read auth_token) (\<lambda>tok.
     py_bind (py_assert (tok \<noteq> JNull) [Lit ''No auth token available'']) (\<lambda>_.
     py_bind (py_read post_id) (\<lambda>pid.
     py_bind (py_assert (pid \<noteq> JNull) [Lit ''No post ID available'']) (\<lambda>_.
     py_bind (requests_delete srv [Lit (API_BASE @ ''/likes?post_id=''), Fmt pid] (bearer tok)) (\<lambda>response.
     py_bind (print_status response) (\<lambda>_.
     py_bind (py_assert (status_code response = 204)
                [Lit ''Unlike post failed with status '', Fmt (JInt (status_code response))]) (\<lambda>_.
     py_bind (print_test_result True ''Post unliked successfully!'') (\<lambda>_.
     py_return (JBool True))))))))))"

definition update_text :: string where
  "update_text = ''This post has been updated by the test suite!''"

definition test_update_post :: "'s server \<Rightarrow> ('s, json) prog" where
  "test_update_post srv =
     py_bind (print_test_header ''Update Post'') (\<lambda>_.
     py_bind (py_read auth_token) (\<lambda>tok.
     py_bind (py_assert (tok \<noteq> JNull) [Lit ''No auth token available'']) (\<lambda>_.
     py_bind (py_read post_id) (\<lambda>pid.
     py_bind (py_assert (pid \<noteq> JNull) [Lit ''No post ID available'']) (\<lambda>_.
     py_bind (requests_put srv [Lit (API_BASE @ ''/posts/''), Fmt pid]
                (Some (JObj [(''text'', JStr update_text)])) (bearer tok)) (\<lambda>response.
     py_bind (print_status response) (\<lambda>_.
     py_bind (py_assert (status_code response = 200)
                [Lit ''Update post failed with status '', Fmt (JInt (status_code response))]) (\<lambda>_.
     py_bind (response_json response) (\<lambda>data.
     py_bind (py_lift (py_getitem data ''text'')) (\<lambda>t.
     py_bind (py_assert (py_eq t (JStr update_text)) [Lit ''Post text not updated'']) (\<lambda>_.
     py_bind (py_lift (py_getitem data ''id'')) (\<lambda>i.
     py_bind (py_assert (py_eq i pid) [Lit ''Wrong post ID'']) (\<lambda>_.
     py_bind (print_response data) (\<lambda>_.
     py_bind (print_test_result True ''Post update successful!'') (\<lambda>_.
     py_return (JBool True))))))))))))))))"

definition test_error_cases :: "'s server \<Rightarrow> int \<Rightarrow> ('s, json) prog" where
  "test_error_cases srv ts =
     py_bind (print_test_header ''Error Cases'') (\<lambda>_.
     py_bind (py_print [Lit (CHR 0x0A # ''--- Testing Invalid Login ---'')]) (\<lambda>_.
     py_bind (requests_post srv [Lit (API_BASE @ ''/login'')]
                (Some (JObj [(''email'', JStr ''wrong@email.com''), (''password'', JStr ''wrongpass'')])) []) (\<lambda>response.
     py_bind (print_status response) (\<lambda>_.
     py_bind (py_assert (status_code response = 401) [Lit ''Invalid login should be rejected'']) (\<lambda>_.
     py_bind (print_test_result True ''Invalid login correctly rejected'') (\<lambda>_.
     py_bind (py_print [Lit (CHR 0x0A # ''--- Testing Duplicate Registration ---'')]) (\<lambda>_.
     py_bind (requests_post srv [Lit (API_BASE @ ''/register'')] (Some (JObj (test_user ts))) []) (\<lambda>response.
     py_bind (print_status response) (\<lambda>_.
     py_bind (py_assert (status_code response = 400) [Lit ''Duplicate registration should be rejected'']) (\<lambda>_.
     py_bind (print_test_result True ''Duplicate registration correctly rejected'') (\<lambda>_.
     py_bind (py_print [Lit (CHR 0x0A # ''--- Testing Invalid Token ---'')]) (\<lambda>_.
     py_bind (requests_get srv [Lit (API_BASE @ ''/profile'')]
                [(''Authorization'', [Lit ''Bearer invalid_token''])]) (\<lambda>response.
     py_bind (print_status response) (\<lambda>_.
     py_bind (py_assert (status_code response = 401) [Lit ''Invalid token should be rejected'']) (\<lambda>_.
     py_bind (print_test_result True ''Invalid token correctly rejected'') (\<lambda>_.
     py_bind (py_print [Lit (CHR 0x0A # ''--- Testing Non-existent Post ---'')]) (\<lambda>_.
     py_bind (requests_get srv [Lit (API_BASE @ ''/posts/non-existent-id'')] []) (\<lambda>response.
     py_bind (print_status response) (\<lambda>_.
     py_bind (py_assert (status_code response = 404) [Lit ''Non-existent post should return 404'']) (\<lambda>_.
     py_bind (print_test_result True ''Non-existent post correctly handled'') (\<lambda>_.
     py_return JNull)))))))))))))))))))))"

definition invalid_email_data :: json where
  "invalid_email_data =
     JObj [(''username'', JStr ''testuser3''), (''email'', JStr ''invalid-email''),
           (''password'', JStr ''password123'')]"

definition short_password_data :: json where
  "short_password_data =
     JObj [(''username'', JStr ''testuser3''), (''email'', JStr ''test3@example.com''),
           (''password'', JStr ''123'')]"

definition test_validation_errors :: "'s server \<Rightarrow> ('s, json) prog" where
  "test_validation_errors srv =
     py_bind (print_test_header ''Input Validation'') (\<lambda>_.
     py_bind (py_print [Lit (CHR 0x0A # ''--- Testing Invalid Email ---'')]) (\<lambda>_.
     py_bind (requests_post srv [Lit (API_BASE @ ''/register'')] (Some invalid_email_data) []) (\<lambda>response.
     py_bind (print_status response) (\<lambda>_.
     py_bind (py_assert (status_code response = 422) [Lit ''Invalid email should be rejected'']) (\<lambda>_.
     py_bind (print_test_result True ''Invalid email format correctly rejected'') (\<lambda>_.
     py_bind (py_print [Lit (CHR 0x0A # ''--- Testing Short Password ---'')]) (\<lambda>_.
     py_bind (requests_post srv [Lit (API_BASE @ ''/register'')] (Some short_password_data) []) (\<lambda>response.
     py_bind (print_status response) (\<lambda>_.
     py_bind (py_assert (status_code response = 400) [Lit ''Short password should be rejected'']) (\<lambda>_.
     py_bind (print_test_result True ''Short password correctly rejected'') (\<lambda>_.
     py_return JNull)))))))))))"

text \<open>
  The calls inside the \<open>try\<close> block of \<open>main\<close>, in the order they are written. Each result
  is discarded; an exception ends the sequence.
\<close>

definition all_tests :: "'s server \<Rightarrow> int \<Rightarrow> ('s, json) prog list" where
  "all_tests srv ts =
     [test_registration srv ts,
      test_login_before_verification srv ts,
      test_email_verification_request srv ts,
      test_email_verification_confirm srv,
      test_login srv ts,
      test_profile srv ts,
      test_create_post srv,
      test_get_all_posts srv,
      test_get_single_post srv,
      test_update_post srv,
      test_create_comment srv,
      test_get_comments srv,
      test_like_post srv,
      test_unlike_post srv,
      test_error_cases srv ts,
      test_validation_errors srv]"

fun run_all :: "('s, json) prog list \<Rightarrow> ('s, unit) prog" where
  "run_all [] = py_return ()"
| "run_all (t # rest) = py_bind t (\<lambda>_. run_all rest)"

definition py_emit :: "out \<Rightarrow> ('s, unit) prog" where
  "py_emit x w = (Inr (), w\<lparr>stdout := stdout w @ [x]\<rparr>)"

definition try_block :: "'s server \<Rightarrow> int \<Rightarrow> ('s, unit) prog" where
  "try_block srv ts =
     py_bind (run_all (all_tests srv ts)) (\<lambda>_.
     py_bind (py_print [Lit (CHR 0x0A # rule60)]) (\<lambda>_.
     py_bind (py_print [Glyph Party, Lit '' All tests completed successfully!'']) (\<lambda>_.
     py_bind (py_print [Lit rule60]) (\<lambda>_.
     py_bind (py_print [Lit [CHR 0x0A], Glyph Memo, Lit '' Notes:'']) (\<lambda>_.
     py_bind (py_print [Lit ''- Email verification tests use dummy tokens'']) (\<lambda>_.
     py_bind (py_print [Lit ''- For complete testing, manually verify email or extract token from database'']) (\<lambda>_.
     py_bind (py_print [Lit ''- Some tests may fail until email verification is complete'']) (\<lambda>_.
     py_bind cleanup_test_data (\<lambda>_.
     py_return ())))))))))"

text \<open>The three \<open>except\<close> clauses, tried in the order they are written.\<close>

definition handler :: "exn \<Rightarrow> ('s, unit) prog" where
  "handler e =
     (case e of
        ConnectionError \<Rightarrow>
          py_bind (py_print [Glyph CrossMark, Lit '' Could not connect to '', Lit BASE_URL]) (\<lambda>_.
          py_bind (py_print [Lit ''Make sure your backend server is running!'']) (\<lambda>_.
          py_print [Lit ''Run: uvicorn app.main:app --reload'']))
      | AssertionError msg \<Rightarrow>
          py_bind (py_emit (ExcLine [Glyph CrossMark, Lit '' Test assertion failed: ''] e)) (\<lambda>_.
          py_emit (Traceback e))
      | _ \<Rightarrow>
          py_bind (py_emit (ExcLine [Glyph CrossMark, Lit '' Test error: ''] e)) (\<lambda>_.
          py_emit (Traceback e)))"

definition main :: "'s server \<Rightarrow> int \<Rightarrow> ('s, json) prog" where
  "main srv ts =
     py_bind (py_print [Glyph Rocket, Lit '' Starting Comprehensive Backend API Tests'']) (\<lambda>_.
     py_bind (py_print [Lit ''Testing against: '', Lit BASE_URL]) (\<lambda>_.
     py_bind (py_print [Lit rule60]) (\<lambda>_.
     py_bind (py_try (try_block srv ts) handler) (\<lambda>_.
     py_return JNull))))"

section \<open>The validation schema\<close>

text \<open>
  \<open>schema.py\<close> declares its classes by annotated fields. A class is the list of its fields,
  inherited ones first; no field has a default, so each is required. A field annotated with
  a class holds a nested object.
\<close>

datatype field_type = Str | EmailStr | Model "(string \<times> field_type) list"

definition UserBase :: "(string \<times> field_type) list" where
  "UserBase = [(''username'', Str), (''email'', EmailStr)]"

definition UserCreate :: "(string \<times> field_type) list" where
  "UserCreate = UserBase @ [(''password'', Str)]"

definition UserLogin :: "(string \<times> field_type) list" where
  "UserLogin = [(''email'', EmailStr), (''password'', Str)]"

definition UserResponse :: "(string \<times> field_type) list" where
  "UserResponse = UserBase @ [(''id'', Str)]"

definition TokenResponse :: "(string \<times> field_type) list" where
  "TokenResponse = [(''user'', Model UserResponse), (''token'', Str)]"

text \<open>
  Validation of a raw value against an annotation, as the base class \<open>BaseModel\<close> of
  pydantic 2 performs it on decoded JSON in its default mode: \<open>str\<close> admits a string and
  nothing else (a number is not converted), \<open>EmailStr\<close> a string that is a syntactically
  valid email address (the predicate \<open>valid_email\<close> stands for the email validator), a class
  an object holding every field of the class with a value its annotation admits. Keys the
  class does not declare are ignored.
\<close>

fun admits :: "(string \<Rightarrow> bool) \<Rightarrow> field_type \<Rightarrow> json \<Rightarrow> bool" where
  "admits valid_email Str v = (case v of JStr s \<Rightarrow> True | _ \<Rightarrow> False)"
| "admits valid_email EmailStr v = (case v of JStr s \<Rightarrow> valid_email s | _ \<Rightarrow> False)"
| "admits valid_email (Model fs) v =
     (case v of
        JObj kvs \<Rightarrow>
          list_all (\<lambda>(name, ty).
            case map_of kvs name of None \<Rightarrow> False | Some x \<Rightarrow> admits valid_email ty x) fs
      | _ \<Rightarrow> False)"

datatype validation = Accepted | ValidationError

definition validate :: "(string \<Rightarrow> bool) \<Rightarrow> (string \<times> field_type) list \<Rightarrow> json \<Rightarrow> validation" where
  "validate valid_email cls payload =
     (if admits valid_email (Model cls) payload then Accepted else ValidationError)"

section \<open>A sample server\<close>

text \<open>
  A small server to run the script against. Its state is the list of registered users
  (username and email). It refuses a registration whose username is taken, never marks an
  email as verified, and keeps a single post whose stored text it never changes.
\<close>

definition reply :: "int \<Rightarrow> json \<Rightarrow> outcome" where
  "reply code v = Responded \<lparr>status_code = code, body = Json v\<rparr>"

definition detail :: "string \<Rightarrow> json" where
  "detail msg = JObj [(''detail'', JStr msg)]"

fun str_field :: "json option \<Rightarrow> string \<Rightarrow> string option" where
  "str_field (Some (JObj kvs)) k = (case map_of kvs k of Some (JStr s) \<Rightarrow> Some s | _ \<Rightarrow> None)"
| "str_field _ k = None"

definition demo_register :: "(string \<times> string) list \<Rightarrow> json option \<Rightarrow> outcome \<times> (string \<times> string) list" where
  "demo_register users b =
     (case (str_field b ''username'', str_field b ''email'', str_field b ''password'') of
        (Some u, Some e, Some p) \<Rightarrow>
          if CHR ''@'' \<notin> set e then (reply 422 (detail ''value is not a valid email address''), users)
          else if length p < 6 then (reply 400 (detail ''Password must be at least 6 characters''), users)
          else if u \<in> set (map fst users) then (reply 400 (detail ''Username already registered''), users)
          else (reply 201 (JObj [(''user'', JObj [(''username'', JStr u), (''email'', JStr e), (''id'', JStr ''u1'')]),
                                 (''token'', JStr ''t1'')]),
                users @ [(u, e)])
      | _ \<Rightarrow> (reply 422 (detail ''field required''), users))"

definition demo_post :: "string \<Rightarrow> json" where
  "demo_post t = JObj [(''id'', JStr ''p1''), (''text'', JStr t), (''created_at'', JStr ''2024-01-01T00:00:00'')]"

definition demo_server :: "(string \<times> string) list server" where
  "demo_server users rq =
     (let m = verb rq; u = url rq; authed = (headers rq = bearer (JStr ''t1'')) in
      if m = POST \<and> u = [Lit (API_BASE @ ''/register'')] then demo_register users (json_body rq)
      else if m = POST \<and> u = [Lit (API_BASE @ ''/login'')] then
        (if str_field (json_body rq) ''email'' \<in> Some ` set (map snd users)
         then reply 401 (detail ''Please verify your email before logging in'')
         else reply 401 (detail ''Invalid credentials''), users)
      else if m = POST \<and> u = [Lit (API_BASE @ ''/email-verification/request'')] then
        (reply 200 (JObj [(''message'', JStr ''Verification email sent'')]), users)
      else if m = POST \<and> u = [Lit (API_BASE @ ''/email-verification/confirm?token='' @ dummy_token)] then
        (reply 400 (detail ''Invalid or expired verification token''), users)
      else if m = GET \<and> u = [Lit (API_BASE @ ''/profile'')] then
        (case users of
           (name, email) # _ \<Rightarrow>
             if authed then reply 200 (JObj [(''user'', JObj [(''username'', JStr name), (''email'', JStr email), (''id'', JStr ''u1'')])])
             else reply 401 (detail ''Invalid token'')
         | [] \<Rightarrow> reply 401 (detail ''Invalid token''), users)
      else if m = POST \<and> u = [Lit (API_BASE @ ''/posts'')] then
        (case str_field (json_body rq) ''text'' of
           Some t \<Rightarrow> if authed then reply 201 (demo_post t) else reply 401 (detail ''Not authenticated'')
         | None \<Rightarrow> reply 422 (detail ''field required''), users)
      else if m = GET \<and> u = [Lit (API_BASE @ ''/posts'')] then
        (reply 200 (JArr [demo_post ''stored text'']), users)
      else if m = GET \<and> u = [Lit (API_BASE @ ''/posts/''), Fmt (JStr ''p1'')] then
        (reply 200 (demo_post ''stored text''), users)
      else if m = PUT \<and> u = [Lit (API_BASE @ ''/posts/''), Fmt (JStr ''p1'')] then
        (case str_field (json_body rq) ''text'' of
           Some t \<Rightarrow> if authed then reply 200 (demo_post t) else reply 401 (detail ''Not authenticated'')
         | None \<Rightarrow> reply 422 (detail ''field required''), users)
      else if m = POST \<and> u = [Lit (API_BASE @ ''/comments?post_id=''), Fmt (JStr ''p1'')] then
        (case str_field (json_body rq) ''text'' of
           Some t \<Rightarrow>
             if authed
             then reply 201 (JObj [(''id'', JStr ''c1''), (''text'', JStr t), (''post_id'', JStr ''p1''),
                                   (''created_at'', JStr ''2024-01-01T00:00:01'')])
             else reply 401 (detail ''Not authenticated'')
         | None \<Rightarrow> reply 422 (detail ''field required''), users)
      else if m = GET \<and> u = [Lit (API_BASE @ ''/''), Fmt (JStr ''p1''), Lit ''/comments''] then
        (reply 200 (JArr []), users)
      else if m = POST \<and> u = [Lit (API_BASE @ ''/likes?post_id=''), Fmt (JStr ''p1'')] then
        (if authed
         then reply 201 (JObj [(''id'', JStr ''l1''), (''post_id'', JStr ''p1''), (''user_id'', JStr ''u1'')])
         else reply 401 (detail ''Not authenticated''), users)
      else if m = DELETE \<and> u = [Lit (API_BASE @ ''/likes?post_id=''), Fmt (JStr ''p1'')] then
        (if authed then Responded \<lparr>status_code = 204, body = Raw []\<rparr>
         else reply 401 (detail ''Not authenticated''), users)
      else (reply 404 (detail ''Not Found''), users))"

text \<open>The run of the script against the sample server, started at a fixed time.\<close>

definition demo_ts :: int where
  "demo_ts = 1700000000"

definition demo_run :: "(exn + json) \<times> (string \<times> string) list world" where
  "demo_run = main demo_server demo_ts (initial_world [])"

text \<open>A server that cannot be reached, and one that answers every request with status 500.\<close>

definition down_server :: "unit server" where
  "down_server s rq = (ConnectionFailed, s)"

definition broken_server :: "unit server" where
  "broken_server s rq = (Responded \<lparr>status_code = 500, body = Raw ''Internal Server Error''\<rparr>, s)"

section \<open>Names for the requests the script issues\<close>

definition register_request :: "int \<Rightarrow> request" where
  "register_request ts =
     \<lparr>verb = POST, url = [Lit (API_BASE @ ''/register'')],
      json_body = Some (JObj (test_user ts)), headers = []\<rparr>"

definition login_request :: "int \<Rightarrow> request" where
  "login_request ts =
     \<lparr>verb = POST, url = [Lit (API_BASE @ ''/login'')],
      json_body = Some (JObj (test_user ts)), headers = []\<rparr>"

definition confirm_request :: request where
  "confirm_request =
     \<lparr>verb = POST, url = [Lit (API_BASE @ ''/email-verification/confirm?token=dummy_token_for_testing'')],
      json_body = None, headers = []\<rparr>"

definition create_post_request :: "json \<Rightarrow> request" where
  "create_post_request tok =
     \<lparr>verb = POST, url = [Lit (API_BASE @ ''/posts'')],
      json_body = Some (JObj [(''text'', JStr post_text)]), headers = bearer tok\<rparr>"

definition get_post_request :: "json \<Rightarrow> request" where
  "get_post_request pid =
     \<lparr>verb = GET, url = [Lit (API_BASE @ ''/posts/''), Fmt pid], json_body = None, headers = []\<rparr>"

definition update_post_request :: "json \<Rightarrow> json \<Rightarrow> request" where
  "update_post_request tok pid =
     \<lparr>verb = PUT, url = [Lit (API_BASE @ ''/posts/''), Fmt pid],
      json_body = Some (JObj [(''text'', JStr update_text)]), headers = bearer tok\<rparr>"

definition invalid_email_request :: request where
  "invalid_email_request =
     \<lparr>verb = POST, url = [Lit (API_BASE @ ''/register'')],
      json_body = Some invalid_email_data, headers = []\<rparr>"

definition short_password_request :: request where
  "short_password_request =
     \<lparr>verb = POST, url = [Lit (API_BASE @ ''/register'')],
      json_body = Some short_password_data, headers = []\<rparr>"

definition verification_request :: "int \<Rightarrow> request" where
  "verification_request ts =
     \<lparr>verb = POST, url = [Lit (API_BASE @ ''/email-verification/request'')],
      json_body = Some (JObj [(''email'', JStr (''test_'' @ str_int ts @ ''@example.com''))]),
      headers = []\<rparr>"

definition profile_request :: "json \<Rightarrow> request" where
  "profile_request tok =
     \<lparr>verb = GET, url = [Lit (API_BASE @ ''/profile'')], json_body = None, headers = bearer tok\<rparr>"

definition list_posts_request :: request where
  "list_posts_request =
     \<lparr>verb = GET, url = [Lit (API_BASE @ ''/posts'')], json_body = None, headers = []\<rparr>"

definition create_comment_request :: "json \<Rightarrow> json \<Rightarrow> request" where
  "create_comment_request tok pid =
     \<lparr>verb = POST, url = [Lit (API_BASE @ ''/comments?post_id=''), Fmt pid],
      json_body = Some (JObj [(''text'', JStr comment_text)]), headers = bearer tok\<rparr>"

definition get_comments_request :: "json \<Rightarrow> request" where
  "get_comments_request pid =
     \<lparr>verb = GET, url = [Lit (API_BASE @ ''/''), Fmt pid, Lit ''/comments''],
      json_body = None, headers = []\<rparr>"

definition like_request :: "json \<Rightarrow> json \<Rightarrow> request" where
  "like_request tok pid =
     \<lparr>verb = POST, url = [Lit (API_BASE @ ''/likes?post_id=''), Fmt pid],
      json_body = None, headers = bearer tok\<rparr>"

definition unlike_request :: "json \<Rightarrow> json \<Rightarrow> request" where
  "unlike_request tok pid =
     \<lparr>verb = DELETE, url = [Lit (API_BASE @ ''/likes?post_id=''), Fmt pid],
      json_body = None, headers = bearer tok\<rparr>"

definition invalid_login_request :: request where
  "invalid_login_request =
     \<lparr>verb = POST, url = [Lit (API_BASE @ ''/login'')],
      json_body = Some (JObj [(''email'', JStr ''wrong@email.com''), (''password'', JStr ''wrongpass'')]),
      headers = []\<rparr>"

definition invalid_token_request :: request where
  "invalid_token_request =
     \<lparr>verb = GET, url = [Lit (API_BASE @ ''/profile'')], json_body = None,
      headers = [(''Authorization'', [Lit ''Bearer invalid_token''])]\<rparr>"

definition missing_post_request :: request where
  "missing_post_request =
     \<lparr>verb = GET, url = [Lit (API_BASE @ ''/posts/non-existent-id'')], json_body = None, headers = []\<rparr>"

text \<open>
  The user the sample server holds after the registration at \<open>demo_ts\<close>, and the requests
  the run against the sample server issues, in order.
\<close>

definition demo_users :: "(string \<times> string) list" where
  "demo_users = [(''testuser_1700000000'', ''test_1700000000@example.com'')]"

definition demo_requests :: "request list" where
  "demo_requests =
     [register_request demo_ts,
      login_request demo_ts,
      verification_request demo_ts,
      confirm_request,
      login_request demo_ts,
      profile_request (JStr ''t1''),
      create_post_request (JStr ''t1''),
      list_posts_request,
      get_post_request (JStr ''p1''),
      update_post_request (JStr ''t1'') (JStr ''p1''),
      create_comment_request (JStr ''t1'') (JStr ''p1''),
      get_comments_request (JStr ''p1''),
      like_request (JStr ''t1'') (JStr ''p1''),
      unlike_request (JStr ''t1'') (JStr ''p1''),
      invalid_login_request,
      register_request demo_ts,
      invalid_token_request,
      missing_post_request,
      invalid_email_request,
      short_password_request]"

text \<open>
  A state in which the sample server holds the registered user and the script holds the
  token, the user id and the post id that the sample server hands out.
\<close>

definition demo_world :: "(string \<times> string) list world" where
  "demo_world =
     (initial_world demo_users)\<lparr>auth_token := JStr ''t1'', user_id := JStr ''u1'', post_id := JStr ''p1''\<rparr>"

text \<open>A registration that reuses the sample user's email address under another username.\<close>

definition other_name_request :: request where
  "other_name_request =
     \<lparr>verb = POST, url = [Lit (API_BASE @ ''/register'')],
      json_body = Some (JObj [(''username'', JStr ''someone_else''),
                              (''email'', JStr ''test_1700000000@example.com''),
                              (''password'', JStr ''password123'')]),
      headers = []\<rparr>"

text \<open>
  A request may go to the confirmation endpoint when it is a POST whose URL starts with a
  literal that agrees with the endpoint's path as far as both reach (what follows the
  literal is an interpolated value, which could complete the path).
\<close>

definition to_confirm_endpoint :: "request \<Rightarrow> bool" where
  "to_confirm_endpoint rq =
     (verb rq = POST \<and>
      (case url rq of
         Lit s # rest \<Rightarrow>
           take (length (API_BASE @ ''/email-verification/confirm'')) s =
             take (length s) (API_BASE @ ''/email-verification/confirm'')
       | _ \<Rightarrow> True))"

text \<open>A request registers a user under a given email address and a given username.\<close>

definition registers :: "string \<Rightarrow> string \<Rightarrow> request \<Rightarrow> bool" where
  "registers username email rq =
     (verb rq = POST \<and> url rq = [Lit (API_BASE @ ''/register'')] \<and>
      str_field (json_body rq) ''username'' = Some username \<and>
      str_field (json_body rq) ''email'' = Some email)"

section \<open>The acceptance condition in the words of the specification\<close>

text \<open>
  The specification accepts a payload when every required field is present and every email
  field is a syntactically valid email address. This is that condition, to be compared with
  \<open>admits\<close>: a field that is neither an email nor a nested object only has to be present.
\<close>

fun present_and_email_valid :: "(string \<Rightarrow> bool) \<Rightarrow> field_type \<Rightarrow> json \<Rightarrow> bool" where
  "present_and_email_valid valid_email Str v = True"
| "present_and_email_valid valid_email EmailStr v = (case v of JStr s \<Rightarrow> valid_email s | _ \<Rightarrow> False)"
| "present_and_email_valid valid_email (Model fs) v =
     (case v of
        JObj kvs \<Rightarrow>
          list_all (\<lambda>(name, ty).
            case map_of kvs name of
              None \<Rightarrow> False
            | Some x \<Rightarrow> present_and_email_valid valid_email ty x) fs
      | _ \<Rightarrow> False)"

text \<open>A stand-in for the email validator on the sample inputs: an address holds an at sign.\<close>

definition has_at :: "string \<Rightarrow> bool" where
  "has_at s = (CHR ''@'' \<in> set s)"

section \<open>A property of programs: which requests they issue\<close>

text \<open>
  \<open>issues_only P m\<close>: whatever \<open>m\<close> does, it leaves the requests issued before in place and
  adds only requests that satisfy \<open>P\<close>.
\<close>

definition issues_only :: "(request \<Rightarrow> bool) \<Rightarrow> ('s, 'a) prog \<Rightarrow> bool" where
  "issues_only P m =
     (\<forall>w r w'. m w = (r, w') \<longrightarrow> (\<exists>rqs. sent w' = sent w @ rqs \<and> (\<forall>rq\<in>set rqs. P rq)))"

section \<open>The tests after the login, and the token they run with\<close>






section \<open>Unfolding rules and basic facts\<close>

lemmas prog_defs = py_bind_def py_return_def py_raise_def py_lift_def py_read_def py_write_def
  py_print_def py_assert_def py_try_def py_emit_def

lemmas io_defs = requests_post_def requests_get_def requests_put_def requests_delete_def
  requests_call_def print_status_def response_json_def print_test_header_def
  print_test_result_def print_response_def

lemmas url_defs = bearer_def API_BASE_def BASE_URL_def dummy_token_def

lemmas demo_defs = demo_server_def demo_register_def demo_post_def reply_def detail_def

lemma str_int_demo_ts: "str_int demo_ts = ''1700000000''"
  by (simp add: str_int_def demo_ts_def digit_char_def)

lemma test_user_demo_ts:
  "test_user demo_ts =
     [(''username'', JStr ''testuser_1700000000''),
      (''email'', JStr ''test_1700000000@example.com''),
      (''password'', JStr ''password123'')]"
  by (simp add: test_user_def str_int_demo_ts)

lemma py_eq_JStr: "py_eq v (JStr s) = (v = JStr s)"
  by (cases v) (auto split: option.splits)

lemma run_all_raise:
  "run_all xs w = (Inr u, w1) \<Longrightarrow> f w1 = (Inl e, w2) \<Longrightarrow> run_all (xs @ f # ys) w = (Inl e, w2)"
proof (induction xs arbitrary: w)
  case Nil
  then show ?case by (simp add: py_bind_def py_return_def)
next
  case (Cons t rest)
  then show ?case by (auto simp: py_bind_def split: prod.splits sum.splits)
qed

lemma handler_result:
  "handler e w =
     (Inr (),
      w\<lparr>stdout := stdout w @
         (case e of
            ConnectionError \<Rightarrow>
              [Line [Glyph CrossMark, Lit '' Could not connect to '', Lit BASE_URL],
               Line [Lit ''Make sure your backend server is running!''],
               Line [Lit ''Run: uvicorn app.main:app --reload'']]
          | AssertionError msg \<Rightarrow>
              [ExcLine [Glyph CrossMark, Lit '' Test assertion failed: ''] (AssertionError msg),
               Traceback (AssertionError msg)]
          | _ \<Rightarrow> [ExcLine [Glyph CrossMark, Lit '' Test error: ''] e, Traceback e])\<rparr>)"
  by (cases e) (simp_all add: handler_def prog_defs)

section \<open>Failure semantics of the run\<close>

text \<open>
  Claim C2. Whichever test raises first, \<open>main\<close> ends in the state that test left: no later
  test runs and no further request is issued. What is printed then depends on the exception:
  an assertion failure prints the line starting "Test assertion failed:" with the
  assertion's message and a stack trace; a connection failure prints three lines of its
  own, starting "Could not connect to", with no stack trace and no assertion line; any
  other exception prints the line starting "Test error:" and a stack trace.
\<close>

theorem main_failure_semantics:
  assumes "all_tests srv ts = xs @ f # ys"
    and "run_all xs (w\<lparr>stdout := stdout w @
            [Line [Glyph Rocket, Lit '' Starting Comprehensive Backend API Tests''],
             Line [Lit ''Testing against: '', Lit BASE_URL],
             Line [Lit rule60]]\<rparr>) = (Inr u, w1)"
    and "f w1 = (Inl e, w2)"
  shows "main srv ts w =
     (Inr JNull,
      w2\<lparr>stdout := stdout w2 @
         (case e of
            ConnectionError \<Rightarrow>
              [Line [Glyph CrossMark, Lit '' Could not connect to '', Lit BASE_URL],
               Line [Lit ''Make sure your backend server is running!''],
               Line [Lit ''Run: uvicorn app.main:app --reload'']]
          | AssertionError msg \<Rightarrow>
              [ExcLine [Glyph CrossMark, Lit '' Test assertion failed: ''] (AssertionError msg),
               Traceback (AssertionError msg)]
          | _ \<Rightarrow> [ExcLine [Glyph CrossMark, Lit '' Test error: ''] e, Traceback e])\<rparr>)"
proof -
  have "run_all (all_tests srv ts) (w\<lparr>stdout := stdout w @
            [Line [Glyph Rocket, Lit '' Starting Comprehensive Backend API Tests''],
             Line [Lit ''Testing against: '', Lit BASE_URL],
             Line [Lit rule60]]\<rparr>) = (Inl e, w2)"
    using run_all_raise[of xs _ u w1 f e w2 ys] assms by simp
  then show ?thesis
    by (simp add: main_def try_block_def py_bind_def py_print_def py_try_def py_return_def
        handler_result)
qed

text \<open>
  The unreachable server makes the first request fail with a connection error; the server
  that answers 500 makes the first assertion fail. In both runs the registration request is
  the only one issued.
\<close>

theorem main_failure_semantics_witness:
  "sent (snd (main down_server demo_ts (initial_world ()))) = [register_request demo_ts] \<and>
   drop 6 (stdout (snd (main down_server demo_ts (initial_world ())))) =
     [Line [Glyph CrossMark, Lit '' Could not connect to '', Lit BASE_URL],
      Line [Lit ''Make sure your backend server is running!''],
      Line [Lit ''Run: uvicorn app.main:app --reload'']] \<and>
   sent (snd (main broken_server demo_ts (initial_world ()))) = [register_request demo_ts] \<and>
   drop 7 (stdout (snd (main broken_server demo_ts (initial_world ())))) =
     [ExcLine [Glyph CrossMark, Lit '' Test assertion failed: '']
        (AssertionError [Lit ''Registration failed with status '', Fmt (JInt 500)]),
      Traceback (AssertionError [Lit ''Registration failed with status '', Fmt (JInt 500)])]"
proof -
  let ?w0 = "(initial_world ())\<lparr>stdout := stdout (initial_world ()) @
            [Line [Glyph Rocket, Lit '' Starting Comprehensive Backend API Tests''],
             Line [Lit ''Testing against: '', Lit BASE_URL],
             Line [Lit rule60]]\<rparr>"
  have split_down: "all_tests down_server demo_ts =
      [] @ test_registration down_server demo_ts # tl (all_tests down_server demo_ts)"
    by (simp add: all_tests_def)
  have split_broken: "all_tests broken_server demo_ts =
      [] @ test_registration broken_server demo_ts # tl (all_tests broken_server demo_ts)"
    by (simp add: all_tests_def)
  have start: "run_all [] ?w0 = (Inr (), ?w0)"
    by (simp add: py_return_def)
  have down: "test_registration down_server demo_ts ?w0 =
      (Inl ConnectionError, snd (test_registration down_server demo_ts ?w0))"
    by (simp add: test_registration_def down_server_def prog_defs io_defs initial_world_def)
  have broken: "test_registration broken_server demo_ts ?w0 =
      (Inl (AssertionError [Lit ''Registration failed with status '', Fmt (JInt 500)]),
       snd (test_registration broken_server demo_ts ?w0))"
    by (simp add: test_registration_def broken_server_def prog_defs io_defs initial_world_def)
  have sent_down: "sent (snd (test_registration down_server demo_ts ?w0)) = [register_request demo_ts]"
    by (simp add: test_registration_def down_server_def prog_defs io_defs initial_world_def
        register_request_def)
  have sent_broken: "sent (snd (test_registration broken_server demo_ts ?w0)) = [register_request demo_ts]"
    by (simp add: test_registration_def broken_server_def prog_defs io_defs initial_world_def
        register_request_def)
  have out_down: "length (stdout (snd (test_registration down_server demo_ts ?w0))) = 6"
    by (simp add: test_registration_def down_server_def prog_defs io_defs initial_world_def)
  have out_broken: "length (stdout (snd (test_registration broken_server demo_ts ?w0))) = 7"
    by (simp add: test_registration_def broken_server_def prog_defs io_defs initial_world_def)
  show ?thesis
    using main_failure_semantics[OF split_down start down]
      main_failure_semantics[OF split_broken start broken]
      sent_down sent_broken out_down out_broken
    by simp
qed

section \<open>The cleanup step\<close>

text \<open>
  Claim C10. \<open>cleanup_test_data\<close> returns \<open>None\<close> and only appends its two messages to the
  output: it issues no request, and the server's state and the four captured values (token,
  user id, post id, comment id) are what they were.
\<close>

theorem cleanup_test_data_only_prints:
  "cleanup_test_data w =
     (Inr JNull,
      w\<lparr>stdout := stdout w @
         [Line [Lit [CHR 0x0A], Glyph Broom, Lit '' Cleaning up test data...''],
          Line [Glyph CheckMark, Lit '' Test data cleanup completed'']]\<rparr>) \<and>
   sent (snd (cleanup_test_data w)) = sent w \<and>
   server (snd (cleanup_test_data w)) = server w \<and>
   auth_token (snd (cleanup_test_data w)) = auth_token w \<and>
   user_id (snd (cleanup_test_data w)) = user_id w \<and>
   post_id (snd (cleanup_test_data w)) = post_id w \<and>
   comment_id (snd (cleanup_test_data w)) = comment_id w"
  by (simp add: cleanup_test_data_def prog_defs)

section \<open>Substrings\<close>




section \<open>Registration\<close>

text \<open>
  Claim C4. \<open>test_registration\<close> issues the registration request and nothing else. When it
  returns, it returns \<open>True\<close>, the response had status 201, its body was a JSON object whose
  \<open>token\<close> and whose \<open>user.id\<close> are not \<open>None\<close>, and these two values are now the captured
  \<open>auth_token\<close> and \<open>user_id\<close>. When it raises instead, the whole sequence of tests ends
  there with that exception: no later test runs.
\<close>

theorem test_registration_requires:
  assumes "test_registration srv ts w = (res, w')"
  shows "sent w' = sent w @ [register_request ts] \<and>
    (case res of
       Inr r \<Rightarrow>
         r = JBool True \<and>
         (\<exists>resp data u.
            fst (srv (server w) (register_request ts)) = Responded resp \<and>
            status_code resp = 201 \<and> body resp = Json data \<and>
            py_get data ''token'' JNull = Inr (auth_token w') \<and> auth_token w' \<noteq> JNull \<and>
            py_get data ''user'' (JObj []) = Inr u \<and>
            py_get u ''id'' JNull = Inr (user_id w') \<and> user_id w' \<noteq> JNull)
     | Inl e \<Rightarrow> run_all (all_tests srv ts) w = (Inl e, w'))"
proof -
  have 1: "sent w' = sent w @ [register_request ts]"
    using assms
    by (auto simp: test_registration_def register_request_def prog_defs io_defs
        split: prod.splits outcome.splits sum.splits body.splits if_splits)
  have 2: "res = Inl e \<Longrightarrow> run_all (all_tests srv ts) w = (Inl e, w')" for e
    using assms by (simp add: all_tests_def py_bind_def)
  have 3: "res = Inr r \<Longrightarrow> r = JBool True \<and>
         (\<exists>resp data u.
            fst (srv (server w) (register_request ts)) = Responded resp \<and>
            status_code resp = 201 \<and> body resp = Json data \<and>
            py_get data ''token'' JNull = Inr (auth_token w') \<and> auth_token w' \<noteq> JNull \<and>
            py_get data ''user'' (JObj []) = Inr u \<and>
            py_get u ''id'' JNull = Inr (user_id w') \<and> user_id w' \<noteq> JNull)" for r
    using assms
    by (auto simp: test_registration_def register_request_def prog_defs io_defs
        split: prod.splits outcome.splits sum.splits body.splits if_splits)
  show ?thesis using 1 2 3 by (cases res) auto
qed

text \<open>
  Against the sample server the registration passes and captures token \<open>t1\<close> and user id
  \<open>u1\<close>; against the server that answers 500 it raises and the sequence of tests ends.
\<close>

theorem test_registration_requires_witness:
  "fst (test_registration demo_server demo_ts (initial_world [])) = Inr (JBool True) \<and>
   sent (snd (test_registration demo_server demo_ts (initial_world []))) = [register_request demo_ts] \<and>
   auth_token (snd (test_registration demo_server demo_ts (initial_world []))) = JStr ''t1'' \<and>
   user_id (snd (test_registration demo_server demo_ts (initial_world []))) = JStr ''u1'' \<and>
   (\<exists>resp. fst (demo_server [] (register_request demo_ts)) = Responded resp \<and> status_code resp = 201) \<and>
   fst (run_all (all_tests broken_server demo_ts) (initial_world ())) =
     Inl (AssertionError [Lit ''Registration failed with status '', Fmt (JInt 500)])"
proof -
  have ok: "fst (test_registration demo_server demo_ts (initial_world [])) = Inr (JBool True)"
    by (simp add: test_registration_def test_user_demo_ts prog_defs io_defs demo_defs url_defs
        initial_world_def Let_def)
  have tok: "auth_token (snd (test_registration demo_server demo_ts (initial_world []))) = JStr ''t1''"
    by (simp add: test_registration_def test_user_demo_ts prog_defs io_defs demo_defs url_defs
        initial_world_def Let_def)
  have uid: "user_id (snd (test_registration demo_server demo_ts (initial_world []))) = JStr ''u1''"
    by (simp add: test_registration_def test_user_demo_ts prog_defs io_defs demo_defs url_defs
        initial_world_def Let_def)
  have bad: "fst (test_registration broken_server demo_ts (initial_world ())) =
      Inl (AssertionError [Lit ''Registration failed with status '', Fmt (JInt 500)])"
    by (simp add: test_registration_def broken_server_def prog_defs io_defs initial_world_def)
  have a: "test_registration demo_server demo_ts (initial_world []) =
      (fst (test_registration demo_server demo_ts (initial_world [])),
       snd (test_registration demo_server demo_ts (initial_world [])))"
    by simp
  have b: "test_registration broken_server demo_ts (initial_world ()) =
      (fst (test_registration broken_server demo_ts (initial_world ())),
       snd (test_registration broken_server demo_ts (initial_world ())))"
    by simp
  show ?thesis
    using test_registration_requires[OF a] test_registration_requires[OF b] ok tok uid bad
    by (auto simp: initial_world_def)
qed

section \<open>Login before verification\<close>



section \<open>Validation errors\<close>



section \<open>Requests issued by the tests\<close>

lemma issues_only_return: "issues_only P (py_return x)"
  by (simp add: issues_only_def py_return_def)

lemma issues_only_raise: "issues_only P (py_raise e)"
  by (simp add: issues_only_def py_raise_def)

lemma issues_only_lift: "issues_only P (py_lift x)"
  by (simp add: issues_only_def py_lift_def)

lemma issues_only_read: "issues_only P (py_read f)"
  by (simp add: issues_only_def py_read_def)

lemma issues_only_write: "(\<And>w. sent (f w) = sent w) \<Longrightarrow> issues_only P (py_write f)"
  by (simp add: issues_only_def py_write_def)

lemma issues_only_print: "issues_only P (py_print l)"
  by (simp add: issues_only_def py_print_def)

lemma issues_only_emit: "issues_only P (py_emit x)"
  by (simp add: issues_only_def py_emit_def)

lemma issues_only_assert: "issues_only P (py_assert b msg)"
  by (simp add: issues_only_def py_assert_def py_return_def py_raise_def)

lemma issues_only_call: "P rq \<Longrightarrow> issues_only P (requests_call srv rq)"
  by (auto simp: issues_only_def requests_call_def split: prod.splits)

lemma issues_only_bind:
  assumes "issues_only P m" and "\<And>x. issues_only P (k x)"
  shows "issues_only P (py_bind m k)"
  unfolding issues_only_def
proof (intro allI impI)
  fix w r w'
  assume run: "py_bind m k w = (r, w')"
  obtain r1 w1 where m: "m w = (r1, w1)" by (cases "m w")
  from assms(1) m obtain rqs1 where 1: "sent w1 = sent w @ rqs1" "\<forall>rq\<in>set rqs1. P rq"
    unfolding issues_only_def by blast
  show "\<exists>rqs. sent w' = sent w @ rqs \<and> (\<forall>rq\<in>set rqs. P rq)"
  proof (cases r1)
    case (Inl e)
    with run m have "w' = w1" by (simp add: py_bind_def)
    with 1 show ?thesis by blast
  next
    case (Inr x)
    with run m have "k x w1 = (r, w')" by (simp add: py_bind_def)
    with assms(2)[of x] obtain rqs2 where 2: "sent w' = sent w1 @ rqs2" "\<forall>rq\<in>set rqs2. P rq"
      unfolding issues_only_def by blast
    from 1 2 have "sent w' = sent w @ (rqs1 @ rqs2)" "\<forall>rq\<in>set (rqs1 @ rqs2). P rq" by auto
    then show ?thesis by blast
  qed
qed

lemma issues_only_try:
  assumes "issues_only P m" and "\<And>e. issues_only P (h e)"
  shows "issues_only P (py_try m h)"
  unfolding issues_only_def
proof (intro allI impI)
  fix w r w'
  assume run: "py_try m h w = (r, w')"
  obtain r1 w1 where m: "m w = (r1, w1)" by (cases "m w")
  from assms(1) m obtain rqs1 where 1: "sent w1 = sent w @ rqs1" "\<forall>rq\<in>set rqs1. P rq"
    unfolding issues_only_def by blast
  show "\<exists>rqs. sent w' = sent w @ rqs \<and> (\<forall>rq\<in>set rqs. P rq)"
  proof (cases r1)
    case (Inr x)
    with run m have "w' = w1" by (simp add: py_try_def)
    with 1 show ?thesis by blast
  next
    case (Inl e)
    with run m have "h e w1 = (r, w')" by (simp add: py_try_def)
    with assms(2)[of e] obtain rqs2 where 2: "sent w' = sent w1 @ rqs2" "\<forall>rq\<in>set rqs2. P rq"
      unfolding issues_only_def by blast
    from 1 2 have "sent w' = sent w @ (rqs1 @ rqs2)" "\<forall>rq\<in>set (rqs1 @ rqs2). P rq" by auto
    then show ?thesis by blast
  qed
qed

lemma issues_only_if:
  "issues_only P a \<Longrightarrow> issues_only P b \<Longrightarrow> issues_only P (if c then a else b)"
  by simp

lemma issues_only_run_all:
  "(\<And>t. t \<in> set tests \<Longrightarrow> issues_only P t) \<Longrightarrow> issues_only P (run_all tests)"
  by (induction tests) (auto intro: issues_only_return issues_only_bind)

lemmas issues_only_intros = issues_only_bind issues_only_return issues_only_raise issues_only_lift
  issues_only_read issues_only_write issues_only_print issues_only_emit issues_only_assert
  issues_only_call issues_only_if

lemmas step_defs = requests_post_def requests_get_def requests_put_def requests_delete_def
  print_status_def response_json_def print_test_header_def print_test_result_def
  print_response_def

section \<open>The run against the sample server\<close>

lemma run_all_append_return:
  "run_all xs w = (Inr u, w1) \<Longrightarrow> run_all (xs @ ys) w = run_all ys w1"
proof (induction xs arbitrary: w)
  case Nil
  then show ?case by (simp add: py_return_def)
next
  case (Cons t rest)
  then show ?case by (auto simp: py_bind_def split: prod.splits sum.splits)
qed

lemmas request_defs = register_request_def login_request_def verification_request_def
  confirm_request_def profile_request_def create_post_request_def list_posts_request_def
  get_post_request_def update_post_request_def create_comment_request_def
  get_comments_request_def like_request_def unlike_request_def invalid_login_request_def
  invalid_token_request_def missing_post_request_def invalid_email_request_def
  short_password_request_def

lemma demo_group1:
  assumes "server w = []"
  shows "\<exists>w'. run_all [test_registration demo_server demo_ts,
                        test_login_before_verification demo_server demo_ts,
                        test_email_verification_request demo_server demo_ts,
                        test_email_verification_confirm demo_server] w = (Inr (), w') \<and>
     auth_token w' = JStr ''t1'' \<and> user_id w' = JStr ''u1'' \<and> post_id w' = post_id w \<and>
     comment_id w' = comment_id w \<and> server w' = demo_users \<and>
     sent w' = sent w @ [register_request demo_ts, login_request demo_ts,
        verification_request demo_ts, confirm_request]"
  using assms
  by (simp add: test_registration_def test_login_before_verification_def
      test_email_verification_request_def test_email_verification_confirm_def
      request_defs demo_users_def str_int_demo_ts
      test_user_demo_ts prog_defs io_defs demo_defs url_defs Let_def)

lemma demo_group2:
  assumes "server w = demo_users" and "auth_token w = JStr ''t1''"
  shows "\<exists>w'. run_all [test_login demo_server demo_ts,
                        test_profile demo_server demo_ts,
                        test_create_post demo_server,
                        test_get_all_posts demo_server] w = (Inr (), w') \<and>
     auth_token w' = JStr ''t1'' \<and> user_id w' = user_id w \<and> post_id w' = JStr ''p1'' \<and>
     comment_id w' = comment_id w \<and> server w' = demo_users \<and>
     sent w' = sent w @ [login_request demo_ts, profile_request (JStr ''t1''),
        create_post_request (JStr ''t1''), list_posts_request]"
  using assms
  by (simp add: test_login_def test_profile_def test_create_post_def test_get_all_posts_def
      request_defs demo_users_def post_text_def
      test_user_demo_ts prog_defs io_defs demo_defs url_defs Let_def)

lemma demo_group3:
  assumes "auth_token w = JStr ''t1''" and "post_id w = JStr ''p1''"
  shows "\<exists>w'. run_all [test_get_single_post demo_server,
                        test_update_post demo_server,
                        test_create_comment demo_server,
                        test_get_comments demo_server] w = (Inr (), w') \<and>
     auth_token w' = JStr ''t1'' \<and> user_id w' = user_id w \<and> post_id w' = JStr ''p1'' \<and>
     comment_id w' = JStr ''c1'' \<and> server w' = server w \<and>
     sent w' = sent w @ [get_post_request (JStr ''p1''),
        update_post_request (JStr ''t1'') (JStr ''p1''),
        create_comment_request (JStr ''t1'') (JStr ''p1''), get_comments_request (JStr ''p1'')]"
  using assms
  by (simp add: test_get_single_post_def test_update_post_def test_create_comment_def
      test_get_comments_def request_defs update_text_def comment_text_def
      prog_defs io_defs demo_defs url_defs Let_def)

lemma demo_group4:
  assumes "auth_token w = JStr ''t1''" and "post_id w = JStr ''p1''" and "user_id w = JStr ''u1''"
    and "server w = demo_users"
  shows "\<exists>w'. run_all [test_like_post demo_server,
                        test_unlike_post demo_server,
                        test_error_cases demo_server demo_ts,
                        test_validation_errors demo_server] w = (Inr (), w') \<and>
     auth_token w' = JStr ''t1'' \<and> user_id w' = JStr ''u1'' \<and> post_id w' = JStr ''p1'' \<and>
     comment_id w' = comment_id w \<and> server w' = demo_users \<and>
     sent w' = sent w @ [like_request (JStr ''t1'') (JStr ''p1''),
        unlike_request (JStr ''t1'') (JStr ''p1''), invalid_login_request,
        register_request demo_ts, invalid_token_request, missing_post_request,
        invalid_email_request, short_password_request]"
  using assms
  by (simp add: test_like_post_def test_unlike_post_def test_error_cases_def
      test_validation_errors_def request_defs demo_users_def
      invalid_email_data_def short_password_data_def
      test_user_demo_ts prog_defs io_defs demo_defs url_defs Let_def)

lemma demo_tests_pass:
  assumes "server w = []"
  shows "\<exists>w'. run_all (all_tests demo_server demo_ts) w = (Inr (), w') \<and>
     auth_token w' = JStr ''t1'' \<and> user_id w' = JStr ''u1'' \<and> post_id w' = JStr ''p1'' \<and>
     comment_id w' = JStr ''c1'' \<and> server w' = demo_users \<and>
     sent w' = sent w @ demo_requests"
proof -
  let ?g1 = "[test_registration demo_server demo_ts,
              test_login_before_verification demo_server demo_ts,
              test_email_verification_request demo_server demo_ts,
              test_email_verification_confirm demo_server]"
  let ?g2 = "[test_login demo_server demo_ts, test_profile demo_server demo_ts,
              test_create_post demo_server, test_get_all_posts demo_server]"
  let ?g3 = "[test_get_single_post demo_server, test_update_post demo_server,
              test_create_comment demo_server, test_get_comments demo_server]"
  let ?g4 = "[test_like_post demo_server, test_unlike_post demo_server,
              test_error_cases demo_server demo_ts, test_validation_errors demo_server]"
  have split: "all_tests demo_server demo_ts = ?g1 @ ?g2 @ ?g3 @ ?g4"
    by (simp add: all_tests_def)
  from demo_group1[OF assms] obtain w1 where 1:
    "run_all ?g1 w = (Inr (), w1)" "auth_token w1 = JStr ''t1''" "user_id w1 = JStr ''u1''"
    "server w1 = demo_users"
    "sent w1 = sent w @ [register_request demo_ts, login_request demo_ts,
        verification_request demo_ts, confirm_request]"
    by blast
  from demo_group2[OF 1(4) 1(2)] obtain w2 where 2:
    "run_all ?g2 w1 = (Inr (), w2)" "auth_token w2 = JStr ''t1''" "user_id w2 = user_id w1"
    "post_id w2 = JStr ''p1''" "server w2 = demo_users"
    "sent w2 = sent w1 @ [login_request demo_ts, profile_request (JStr ''t1''),
        create_post_request (JStr ''t1''), list_posts_request]"
    by blast
  from demo_group3[OF 2(2) 2(4)] obtain w3 where 3:
    "run_all ?g3 w2 = (Inr (), w3)" "auth_token w3 = JStr ''t1''" "user_id w3 = user_id w2"
    "post_id w3 = JStr ''p1''" "comment_id w3 = JStr ''c1''" "server w3 = server w2"
    "sent w3 = sent w2 @ [get_post_request (JStr ''p1''),
        update_post_request (JStr ''t1'') (JStr ''p1''),
        create_comment_request (JStr ''t1'') (JStr ''p1''), get_comments_request (JStr ''p1'')]"
    by blast
  have u3: "user_id w3 = JStr ''u1''" and s3: "server w3 = demo_users"
    using 1 2 3 by simp_all
  from demo_group4[OF 3(2) 3(4) u3 s3] obtain w4 where 4:
    "run_all ?g4 w3 = (Inr (), w4)" "auth_token w4 = JStr ''t1''" "user_id w4 = JStr ''u1''"
    "post_id w4 = JStr ''p1''" "comment_id w4 = comment_id w3" "server w4 = demo_users"
    "sent w4 = sent w3 @ [like_request (JStr ''t1'') (JStr ''p1''),
        unlike_request (JStr ''t1'') (JStr ''p1''), invalid_login_request,
        register_request demo_ts, invalid_token_request, missing_post_request,
        invalid_email_request, short_password_request]"
    by blast
  have "run_all (all_tests demo_server demo_ts) w = run_all (?g2 @ ?g3 @ ?g4) w1"
    unfolding split by (rule run_all_append_return[OF 1(1)])
  also have "\<dots> = run_all (?g3 @ ?g4) w2"
    by (rule run_all_append_return[OF 2(1)])
  also have "\<dots> = run_all (?g4 @ []) w3"
    using run_all_append_return[OF 3(1), of ?g4] by simp
  also have "\<dots> = run_all [] w4"
    by (rule run_all_append_return[OF 4(1)])
  finally have "run_all (all_tests demo_server demo_ts) w = (Inr (), w4)"
    by (simp add: py_return_def)
  moreover have "sent w4 = sent w @ demo_requests"
    using 1 2 3 4 by (simp add: demo_requests_def)
  ultimately show ?thesis
    using 3 4 by auto
qed

lemma demo_run_facts:
  "fst demo_run = Inr JNull \<and>
   last (stdout (snd demo_run)) = Line [Glyph CheckMark, Lit '' Test data cleanup completed''] \<and>
   auth_token (snd demo_run) = JStr ''t1'' \<and> user_id (snd demo_run) = JStr ''u1'' \<and>
   post_id (snd demo_run) = JStr ''p1'' \<and> comment_id (snd demo_run) = JStr ''c1'' \<and>
   server (snd demo_run) = demo_users \<and> sent (snd demo_run) = demo_requests"
proof -
  let ?start = "(initial_world ([] :: (string \<times> string) list))\<lparr>stdout := stdout (initial_world ([] :: (string \<times> string) list)) @
            [Line [Glyph Rocket, Lit '' Starting Comprehensive Backend API Tests''],
             Line [Lit ''Testing against: '', Lit BASE_URL],
             Line [Lit rule60]]\<rparr>"
  have "server ?start = []" by (simp add: initial_world_def)
  from demo_tests_pass[OF this] obtain w' where w':
    "run_all (all_tests demo_server demo_ts) ?start = (Inr (), w')"
    "auth_token w' = JStr ''t1''" "user_id w' = JStr ''u1''" "post_id w' = JStr ''p1''"
    "comment_id w' = JStr ''c1''" "server w' = demo_users" "sent w' = sent ?start @ demo_requests"
    by blast
  have "sent ?start = []" by (simp add: initial_world_def)
  with w' show ?thesis
    by (simp add: demo_run_def main_def try_block_def cleanup_test_data_def prog_defs)
qed

section \<open>Confirming the verification\<close>

lemmas test_defs = test_registration_def test_login_before_verification_def
  test_email_verification_request_def test_email_verification_confirm_def test_login_def
  test_profile_def test_create_post_def test_get_all_posts_def test_get_single_post_def
  test_update_post_def test_create_comment_def test_get_comments_def test_like_post_def
  test_unlike_post_def test_error_cases_def test_validation_errors_def

lemma confirm_only_steps:
  fixes srv :: "'s server" and ts :: int
  defines "P \<equiv> \<lambda>rq. to_confirm_endpoint rq \<longrightarrow> rq = confirm_request"
  shows "issues_only P (test_registration srv ts)"
    and "issues_only P (test_login_before_verification srv ts)"
    and "issues_only P (test_email_verification_request srv ts)"
    and "issues_only P (test_email_verification_confirm srv)"
    and "issues_only P (test_login srv ts)"
    and "issues_only P (test_profile srv ts)"
    and "issues_only P (test_create_post srv)"
    and "issues_only P (test_get_all_posts srv)"
    and "issues_only P (test_get_single_post srv)"
    and "issues_only P (test_update_post srv)"
    and "issues_only P (test_create_comment srv)"
    and "issues_only P (test_get_comments srv)"
    and "issues_only P (test_like_post srv)"
    and "issues_only P (test_unlike_post srv)"
    and "issues_only P (test_error_cases srv ts)"
    and "issues_only P (test_validation_errors srv)"
  unfolding test_defs step_defs P_def
  by (intro issues_only_intros;
      simp add: to_confirm_endpoint_def confirm_request_def url_defs)+

lemma confirm_only_handler:
  "issues_only (\<lambda>rq. to_confirm_endpoint rq \<longrightarrow> rq = confirm_request) (handler e)"
  by (cases e) (simp_all add: handler_def issues_only_intros)

lemma confirm_only_main:
  "issues_only (\<lambda>rq. to_confirm_endpoint rq \<longrightarrow> rq = confirm_request) (main srv ts)"
proof -
  have tests: "issues_only (\<lambda>rq. to_confirm_endpoint rq \<longrightarrow> rq = confirm_request)
      (run_all (all_tests srv ts))"
    by (rule issues_only_run_all) (auto simp: all_tests_def confirm_only_steps)
  show ?thesis
    unfolding main_def try_block_def cleanup_test_data_def
    by (intro issues_only_intros issues_only_try tests confirm_only_handler)
qed

text \<open>
  Claim C7. \<open>test_email_verification_confirm\<close> issues one request, the same in every run:
  the confirmation with the token "dummy_token_for_testing". When it returns, the response
  had status 400 (so not the status of a successful confirmation), its body was a JSON
  object, and Python's test \<open>"Invalid or expired" in detail\<close> held of its \<open>detail\<close>. When it
  raises instead, the sequence of tests ends there with that exception. And in a whole run
  of \<open>main\<close>, every request that may go to the confirmation endpoint is that one request.
\<close>

theorem confirm_only_with_dummy_token:
  "(test_email_verification_confirm srv w = (res, w') \<longrightarrow>
      sent w' = sent w @ [confirm_request] \<and>
      (case res of
         Inr r \<Rightarrow>
           (\<exists>resp data d.
              fst (srv (server w) confirm_request) = Responded resp \<and>
              status_code resp = 400 \<and> status_code resp \<noteq> 200 \<and> body resp = Json data \<and>
              py_get data ''detail'' (JStr []) = Inr d \<and>
              py_in ''Invalid or expired'' d = Inr True)
       | Inl e \<Rightarrow> run_all (test_email_verification_confirm srv # rest) w = (Inl e, w'))) \<and>
   (main srv ts w_first = (r_main, w_last) \<longrightarrow>
      (\<exists>rqs. sent w_last = sent w_first @ rqs \<and>
         (\<forall>rq\<in>set rqs. to_confirm_endpoint rq \<longrightarrow> rq = confirm_request)))"
proof (intro conjI impI)
  assume run: "test_email_verification_confirm srv w = (res, w')"
  show "sent w' = sent w @ [confirm_request]"
    using run
    by (auto simp: test_email_verification_confirm_def confirm_request_def prog_defs io_defs url_defs
        split: prod.splits outcome.splits sum.splits body.splits if_splits)
  have 2: "res = Inl e \<Longrightarrow> run_all (test_email_verification_confirm srv # rest) w = (Inl e, w')" for e
    using run by (simp add: py_bind_def)
  have 3: "res = Inr r \<Longrightarrow>
         (\<exists>resp data d.
            fst (srv (server w) confirm_request) = Responded resp \<and>
            status_code resp = 400 \<and> status_code resp \<noteq> 200 \<and> body resp = Json data \<and>
            py_get data ''detail'' (JStr []) = Inr d \<and>
            py_in ''Invalid or expired'' d = Inr True)" for r
    using run
    by (auto simp: test_email_verification_confirm_def confirm_request_def prog_defs io_defs url_defs
        split: prod.splits outcome.splits sum.splits body.splits if_splits)
  show "case res of
         Inr r \<Rightarrow>
           (\<exists>resp data d.
              fst (srv (server w) confirm_request) = Responded resp \<and>
              status_code resp = 400 \<and> status_code resp \<noteq> 200 \<and> body resp = Json data \<and>
              py_get data ''detail'' (JStr []) = Inr d \<and>
              py_in ''Invalid or expired'' d = Inr True)
       | Inl e \<Rightarrow> run_all (test_email_verification_confirm srv # rest) w = (Inl e, w')"
    using 2 3 by (cases res) auto
next
  assume "main srv ts w_first = (r_main, w_last)"
  with confirm_only_main[of srv ts]
  show "\<exists>rqs. sent w_last = sent w_first @ rqs \<and>
         (\<forall>rq\<in>set rqs. to_confirm_endpoint rq \<longrightarrow> rq = confirm_request)"
    unfolding issues_only_def by blast
qed

text \<open>
  The sample server rejects the dummy token with 400 and "Invalid or expired verification
  token", and the run against it issues exactly one request to the confirmation endpoint.
\<close>

theorem confirm_only_with_dummy_token_witness:
  "fst (test_email_verification_confirm demo_server (initial_world [])) = Inr (JBool True) \<and>
   sent (snd (test_email_verification_confirm demo_server (initial_world []))) = [confirm_request] \<and>
   (\<exists>resp. fst (demo_server [] confirm_request) = Responded resp \<and> status_code resp = 400) \<and>
   filter to_confirm_endpoint (sent (snd demo_run)) = [confirm_request]"
proof -
  have ok: "fst (test_email_verification_confirm demo_server (initial_world [])) = Inr (JBool True)"
    by (simp add: test_email_verification_confirm_def prog_defs io_defs demo_defs url_defs
        initial_world_def Let_def)
  have a: "test_email_verification_confirm demo_server (initial_world []) =
      (fst (test_email_verification_confirm demo_server (initial_world [])),
       snd (test_email_verification_confirm demo_server (initial_world [])))"
    by simp
  have b: "main demo_server demo_ts (initial_world []) = (fst demo_run, snd demo_run)"
    by (simp add: demo_run_def)
  have log: "filter to_confirm_endpoint (sent (snd demo_run)) = [confirm_request]"
    using demo_run_facts
    by (simp add: demo_requests_def request_defs to_confirm_endpoint_def url_defs)
  note step = confirm_only_with_dummy_token[where srv = demo_server and rest = "[]",
      THEN conjunct1, THEN mp, OF a]
  note run = confirm_only_with_dummy_token[where srv = demo_server and ts = demo_ts,
      THEN conjunct2, THEN mp, OF b]
  from step run ok log show ?thesis
    by (auto simp: initial_world_def)
qed

section \<open>Login after the verification attempt\<close>




























section \<open>Duplicate registration\<close>

lemma test_error_cases_returns:
  assumes "test_error_cases srv ts w = (Inr r, w')"
  shows "\<exists>r1 s1 r2 s2 r3 s3 r4 s4.
            srv (server w) invalid_login_request = (Responded r1, s1) \<and> status_code r1 = 401 \<and>
            srv s1 (register_request ts) = (Responded r2, s2) \<and> status_code r2 = 400 \<and>
            srv s2 invalid_token_request = (Responded r3, s3) \<and> status_code r3 = 401 \<and>
            srv s3 missing_post_request = (Responded r4, s4) \<and> status_code r4 = 404 \<and>
            sent w' = sent w @ [invalid_login_request, register_request ts,
                                invalid_token_request, missing_post_request]"
  using assms
  by (auto simp: test_error_cases_def invalid_login_request_def register_request_def
      invalid_token_request_def missing_post_request_def prog_defs io_defs
      split: prod.splits outcome.splits sum.splits if_splits)

lemma test_error_cases_duplicate_accepted:
  assumes "test_error_cases srv ts w = (res, w')"
    and "srv (server w) invalid_login_request = (Responded r1, s1)" and "status_code r1 = 401"
    and "srv s1 (register_request ts) = (Responded r2, s2)" and "status_code r2 \<noteq> 400"
  shows "res = Inl (AssertionError [Lit ''Duplicate registration should be rejected''])"
  using assms
  by (auto simp: test_error_cases_def invalid_login_request_def register_request_def
      prog_defs io_defs)

lemma test_registration_sends:
  "test_registration srv ts w = (res, w') \<Longrightarrow> sent w' = sent w @ [register_request ts]"
  by (auto simp: test_registration_def register_request_def prog_defs io_defs
      split: prod.splits outcome.splits sum.splits body.splits if_splits)

text \<open>
  Claim C8, as amended. The second registration of \<open>test_error_cases\<close> repeats the request of
  \<open>test_registration\<close> unchanged: same username, same email, same password. When the test
  returns, that request was answered with status 400 (and the three requests around it with
  401, 401 and 404). When the invalid login was answered with 401 and the repeated
  registration with another status than 400, the test raises the assertion "Duplicate
  registration should be rejected". When the test raises, the sequence of tests ends there.
\<close>

theorem test_error_cases_requires:
  assumes "test_error_cases srv ts w = (res, w')"
  shows "(case res of
       Inr r \<Rightarrow>
         (\<exists>r1 s1 r2 s2 r3 s3 r4 s4.
            srv (server w) invalid_login_request = (Responded r1, s1) \<and> status_code r1 = 401 \<and>
            srv s1 (register_request ts) = (Responded r2, s2) \<and> status_code r2 = 400 \<and>
            srv s2 invalid_token_request = (Responded r3, s3) \<and> status_code r3 = 401 \<and>
            srv s3 missing_post_request = (Responded r4, s4) \<and> status_code r4 = 404 \<and>
            sent w' = sent w @ [invalid_login_request, register_request ts,
                                invalid_token_request, missing_post_request])
     | Inl e \<Rightarrow> run_all (test_error_cases srv ts # rest) w = (Inl e, w')) \<and>
    (\<forall>r1 s1 r2 s2.
       srv (server w) invalid_login_request = (Responded r1, s1) \<and> status_code r1 = 401 \<and>
       srv s1 (register_request ts) = (Responded r2, s2) \<and> status_code r2 \<noteq> 400 \<longrightarrow>
       res = Inl (AssertionError [Lit ''Duplicate registration should be rejected''])) \<and>
    (\<forall>v x v'. test_registration srv ts v = (x, v') \<longrightarrow> sent v' = sent v @ [register_request ts])"
proof -
  have 2: "res = Inl e \<Longrightarrow> run_all (test_error_cases srv ts # rest) w = (Inl e, w')" for e
    using assms by (simp add: py_bind_def)
  have 1: "case res of
       Inr r \<Rightarrow>
         (\<exists>r1 s1 r2 s2 r3 s3 r4 s4.
            srv (server w) invalid_login_request = (Responded r1, s1) \<and> status_code r1 = 401 \<and>
            srv s1 (register_request ts) = (Responded r2, s2) \<and> status_code r2 = 400 \<and>
            srv s2 invalid_token_request = (Responded r3, s3) \<and> status_code r3 = 401 \<and>
            srv s3 missing_post_request = (Responded r4, s4) \<and> status_code r4 = 404 \<and>
            sent w' = sent w @ [invalid_login_request, register_request ts,
                                invalid_token_request, missing_post_request])
     | Inl e \<Rightarrow> run_all (test_error_cases srv ts # rest) w = (Inl e, w')"
  proof (cases res)
    case (Inl e)
    with 2 show ?thesis by simp
  next
    case (Inr r)
    with test_error_cases_returns[of srv ts w r w'] assms show ?thesis by simp
  qed
  show ?thesis
    using 1 test_error_cases_duplicate_accepted[OF assms] test_registration_sends
    by blast
qed

text \<open>
  Against the sample server, in the state that holds the registered user, the test passes:
  the repeated registration is answered with 400.
\<close>

theorem test_error_cases_requires_witness:
  "fst (test_error_cases demo_server demo_ts demo_world) = Inr JNull \<and>
   sent (snd (test_error_cases demo_server demo_ts demo_world)) =
     [invalid_login_request, register_request demo_ts, invalid_token_request, missing_post_request] \<and>
   (\<exists>r2. fst (demo_server demo_users (register_request demo_ts)) = Responded r2 \<and> status_code r2 = 400)"
proof -
  have ok: "fst (test_error_cases demo_server demo_ts demo_world) = Inr JNull"
    by (simp add: test_error_cases_def test_user_demo_ts demo_world_def demo_users_def
        prog_defs io_defs demo_defs url_defs initial_world_def Let_def)
  have a: "test_error_cases demo_server demo_ts demo_world =
      (fst (test_error_cases demo_server demo_ts demo_world),
       snd (test_error_cases demo_server demo_ts demo_world))"
    by simp
  have dup: "fst (demo_server demo_users (register_request demo_ts)) =
      reply 400 (detail ''Username already registered'')"
    by (simp add: register_request_def test_user_demo_ts demo_users_def demo_defs url_defs Let_def)
  have "sent demo_world = []"
    by (simp add: demo_world_def initial_world_def)
  with test_error_cases_requires[OF a, of "[]"] ok dup show ?thesis
    by (auto simp: reply_def)
qed

text \<open>
  The claim as first stated asks for 400 whatever username comes with the used email. The
  run against the sample server passes every test and ends with the cleanup message, and its
  only registrations under the sample user's email are the two identical requests with the
  sample username. Yet the sample server, in the state the run leaves it in, answers a
  registration of that email under another username with 201.
\<close>

theorem duplicate_email_counterexample:
  "last (stdout (snd demo_run)) = Line [Glyph CheckMark, Lit '' Test data cleanup completed''] \<and>
   server (snd demo_run) = demo_users \<and>
   filter (\<lambda>rq. str_field (json_body rq) ''email'' = Some ''test_1700000000@example.com'' \<and>
                 url rq = [Lit (API_BASE @ ''/register'')])
     (sent (snd demo_run)) = [register_request demo_ts, register_request demo_ts] \<and>
   str_field (json_body (register_request demo_ts)) ''username'' = Some ''testuser_1700000000'' \<and>
   registers ''someone_else'' ''test_1700000000@example.com'' other_name_request \<and>
   fst (demo_server demo_users other_name_request) =
     reply 201 (JObj [(''user'', JObj [(''username'', JStr ''someone_else''),
                                       (''email'', JStr ''test_1700000000@example.com''),
                                       (''id'', JStr ''u1'')]),
                      (''token'', JStr ''t1'')])"
proof -
  have log: "filter (\<lambda>rq. str_field (json_body rq) ''email'' = Some ''test_1700000000@example.com'' \<and>
                 url rq = [Lit (API_BASE @ ''/register'')])
     demo_requests = [register_request demo_ts, register_request demo_ts]"
    by (simp add: demo_requests_def request_defs test_user_demo_ts str_int_demo_ts
        invalid_email_data_def short_password_data_def url_defs)
  have name: "str_field (json_body (register_request demo_ts)) ''username'' = Some ''testuser_1700000000''"
    by (simp add: register_request_def test_user_demo_ts)
  have other: "registers ''someone_else'' ''test_1700000000@example.com'' other_name_request"
    by (simp add: registers_def other_name_request_def)
  have accepted: "fst (demo_server demo_users other_name_request) =
     reply 201 (JObj [(''user'', JObj [(''username'', JStr ''someone_else''),
                                       (''email'', JStr ''test_1700000000@example.com''),
                                       (''id'', JStr ''u1'')]),
                      (''token'', JStr ''t1'')])"
    by (simp add: other_name_request_def demo_users_def demo_defs url_defs Let_def)
  show ?thesis
    using demo_run_facts log name other accepted by simp
qed

section \<open>Creating, fetching and updating a post\<close>

lemma test_create_post_returns:
  assumes "test_create_post srv w = (Inr r, w')"
  shows "\<exists>resp data.
      fst (srv (server w) (create_post_request (auth_token w))) = Responded resp \<and>
      status_code resp = 201 \<and> body resp = Json data \<and>
      py_get data ''id'' JNull = Inr (post_id w') \<and> post_id w' \<noteq> JNull \<and>
      py_getitem data ''text'' = Inr (JStr post_text) \<and>
      py_in ''created_at'' data = Inr True \<and>
      sent w' = sent w @ [create_post_request (auth_token w)]"
  using assms
  by (auto simp: test_create_post_def create_post_request_def prog_defs io_defs py_eq_JStr
      split: prod.splits outcome.splits sum.splits body.splits if_splits)

lemma test_get_single_post_returns:
  assumes "test_get_single_post srv w = (Inr r, w')"
  shows "\<exists>resp data i.
      post_id w \<noteq> JNull \<and>
      fst (srv (server w) (get_post_request (post_id w))) = Responded resp \<and>
      status_code resp = 200 \<and> body resp = Json data \<and>
      py_getitem data ''id'' = Inr i \<and> py_eq i (post_id w) \<and>
      py_in ''text'' data = Inr True \<and> py_in ''created_at'' data = Inr True \<and>
      sent w' = sent w @ [get_post_request (post_id w)]"
  using assms
  by (auto simp: test_get_single_post_def get_post_request_def prog_defs io_defs
      split: prod.splits outcome.splits sum.splits body.splits if_splits)

lemma test_update_post_returns:
  assumes "test_update_post srv w = (Inr r, w')"
  shows "\<exists>resp data i.
      fst (srv (server w) (update_post_request (auth_token w) (post_id w))) = Responded resp \<and>
      status_code resp = 200 \<and> body resp = Json data \<and>
      py_getitem data ''text'' = Inr (JStr update_text) \<and>
      py_getitem data ''id'' = Inr i \<and> py_eq i (post_id w) \<and>
      sent w' = sent w @ [update_post_request (auth_token w) (post_id w)]"
  using assms
  by (auto simp: test_update_post_def update_post_request_def prog_defs io_defs py_eq_JStr
      split: prod.splits outcome.splits sum.splits body.splits if_splits)

text \<open>
  Claim C1, as amended. When \<open>test_create_post\<close> returns, the creation was answered with 201
  and a JSON object whose \<open>text\<close> is the text T sent, which has a \<open>created_at\<close> key, and whose
  \<open>id\<close>, not \<open>None\<close>, is now the captured post id. When \<open>test_get_single_post\<close> returns, the
  post was fetched by the captured id and answered with 200 and a JSON object whose \<open>id\<close>
  equals the captured id and which has a \<open>text\<close> key and a \<open>created_at\<close> key; the text itself
  is not compared with T. When \<open>test_update_post\<close> returns, the update with text T2 was
  answered with 200 and a JSON object whose \<open>text\<close> is T2 and whose \<open>id\<close> equals the captured
  id; the update is the only request of that test, the post is not fetched again.
\<close>

theorem post_round_trip_checks:
  "(test_create_post srv w = (Inr r, w') \<longrightarrow>
      (\<exists>resp data.
         fst (srv (server w) (create_post_request (auth_token w))) = Responded resp \<and>
         status_code resp = 201 \<and> body resp = Json data \<and>
         py_get data ''id'' JNull = Inr (post_id w') \<and> post_id w' \<noteq> JNull \<and>
         py_getitem data ''text'' = Inr (JStr post_text) \<and>
         py_in ''created_at'' data = Inr True \<and>
         sent w' = sent w @ [create_post_request (auth_token w)])) \<and>
   (test_get_single_post srv w = (Inr r, w') \<longrightarrow>
      (\<exists>resp data i.
         post_id w \<noteq> JNull \<and>
         fst (srv (server w) (get_post_request (post_id w))) = Responded resp \<and>
         status_code resp = 200 \<and> body resp = Json data \<and>
         py_getitem data ''id'' = Inr i \<and> py_eq i (post_id w) \<and>
         py_in ''text'' data = Inr True \<and> py_in ''created_at'' data = Inr True \<and>
         sent w' = sent w @ [get_post_request (post_id w)])) \<and>
   (test_update_post srv w = (Inr r, w') \<longrightarrow>
      (\<exists>resp data i.
         fst (srv (server w) (update_post_request (auth_token w) (post_id w))) = Responded resp \<and>
         status_code resp = 200 \<and> body resp = Json data \<and>
         py_getitem data ''text'' = Inr (JStr update_text) \<and>
         py_getitem data ''id'' = Inr i \<and> py_eq i (post_id w) \<and>
         sent w' = sent w @ [update_post_request (auth_token w) (post_id w)]))"
  using test_create_post_returns[of srv w r w'] test_get_single_post_returns[of srv w r w']
    test_update_post_returns[of srv w r w']
  by blast

text \<open>
  In the state that holds token \<open>t1\<close> and post id \<open>p1\<close>, each of the three tests passes against
  the sample server and issues its one request.
\<close>

theorem post_round_trip_checks_witness:
  "fst (test_create_post demo_server demo_world) = Inr (JBool True) \<and>
   post_id (snd (test_create_post demo_server demo_world)) = JStr ''p1'' \<and>
   sent (snd (test_create_post demo_server demo_world)) = [create_post_request (JStr ''t1'')] \<and>
   fst (test_get_single_post demo_server demo_world) = Inr (JBool True) \<and>
   sent (snd (test_get_single_post demo_server demo_world)) = [get_post_request (JStr ''p1'')] \<and>
   fst (test_update_post demo_server demo_world) = Inr (JBool True) \<and>
   sent (snd (test_update_post demo_server demo_world)) =
     [update_post_request (JStr ''t1'') (JStr ''p1'')]"
proof -
  have c_ok: "fst (test_create_post demo_server demo_world) = Inr (JBool True)"
    by (simp add: test_create_post_def demo_world_def post_text_def prog_defs io_defs demo_defs
        url_defs initial_world_def Let_def)
  have g_ok: "fst (test_get_single_post demo_server demo_world) = Inr (JBool True)"
    by (simp add: test_get_single_post_def demo_world_def prog_defs io_defs demo_defs
        url_defs initial_world_def Let_def)
  have u_ok: "fst (test_update_post demo_server demo_world) = Inr (JBool True)"
    by (simp add: test_update_post_def demo_world_def update_text_def prog_defs io_defs demo_defs
        url_defs initial_world_def Let_def)
  have c: "test_create_post demo_server demo_world =
      (Inr (JBool True), snd (test_create_post demo_server demo_world))"
    using c_ok by (metis prod.collapse)
  have g: "test_get_single_post demo_server demo_world =
      (Inr (JBool True), snd (test_get_single_post demo_server demo_world))"
    using g_ok by (metis prod.collapse)
  have u: "test_update_post demo_server demo_world =
      (Inr (JBool True), snd (test_update_post demo_server demo_world))"
    using u_ok by (metis prod.collapse)
  have p: "post_id (snd (test_create_post demo_server demo_world)) = JStr ''p1''"
    by (simp add: test_create_post_def demo_world_def post_text_def prog_defs io_defs demo_defs
        url_defs initial_world_def Let_def)
  have w: "sent demo_world = []" "auth_token demo_world = JStr ''t1''" "post_id demo_world = JStr ''p1''"
    by (simp_all add: demo_world_def initial_world_def)
  from post_round_trip_checks[where srv = demo_server, THEN conjunct1, THEN mp, OF c] w
  have 1: "sent (snd (test_create_post demo_server demo_world)) = [create_post_request (JStr ''t1'')]"
    by auto
  from post_round_trip_checks[where srv = demo_server, THEN conjunct2, THEN conjunct1, THEN mp, OF g] w
  have 2: "sent (snd (test_get_single_post demo_server demo_world)) = [get_post_request (JStr ''p1'')]"
    by auto
  from post_round_trip_checks[where srv = demo_server, THEN conjunct2, THEN conjunct2, THEN mp, OF u] w
  have 3: "sent (snd (test_update_post demo_server demo_world)) =
     [update_post_request (JStr ''t1'') (JStr ''p1'')]"
    by auto
  from c_ok g_ok u_ok p 1 2 3 show ?thesis by simp
qed

text \<open>
  The claim as first stated has the fetched text compared with T and the post fetched again
  after the update. The run against the sample server passes every test and ends with the
  cleanup message, with post id \<open>p1\<close> captured. Its ninth request fetches that post, and the
  sample server answers it with a text other than T. The post's URL is requested twice in
  the whole run: by that fetch and then by the update, never after it.
\<close>

theorem round_trip_counterexample:
  "last (stdout (snd demo_run)) = Line [Glyph CheckMark, Lit '' Test data cleanup completed''] \<and>
   post_id (snd demo_run) = JStr ''p1'' \<and>
   length (sent (snd demo_run)) = 20 \<and>
   sent (snd demo_run) ! 8 = get_post_request (JStr ''p1'') \<and>
   fst (demo_server demo_users (get_post_request (JStr ''p1''))) = reply 200 (demo_post ''stored text'') \<and>
   py_getitem (demo_post ''stored text'') ''text'' = Inr (JStr ''stored text'') \<and>
   JStr ''stored text'' \<noteq> JStr post_text \<and>
   map verb (filter (\<lambda>rq. url rq = [Lit (API_BASE @ ''/posts/''), Fmt (JStr ''p1'')])
     (sent (snd demo_run))) = [GET, PUT]"
proof -
  have nth: "demo_requests ! 8 = get_post_request (JStr ''p1'')" "length demo_requests = 20"
    by (simp_all add: demo_requests_def)
  have reply': "fst (demo_server demo_users (get_post_request (JStr ''p1''))) =
      reply 200 (demo_post ''stored text'')"
    by (simp add: get_post_request_def demo_server_def url_defs Let_def)
  have stored: "py_getitem (demo_post ''stored text'') ''text'' = Inr (JStr ''stored text'')"
    by (simp add: demo_post_def)
  have differs: "JStr ''stored text'' \<noteq> JStr post_text"
    by (simp add: post_text_def)
  have log: "map verb (filter (\<lambda>rq. url rq = [Lit (API_BASE @ ''/posts/''), Fmt (JStr ''p1'')])
     demo_requests) = [GET, PUT]"
    by (simp add: demo_requests_def request_defs url_defs)
  show ?thesis
    using demo_run_facts nth reply' stored differs log by simp
qed

section \<open>Acceptance by the validation schema\<close>

text \<open>
  Claim C3, as amended. The schema has the four payload shapes: creation with username,
  email and password; login with email and password; response with username, email and id
  and no password; the token wrapper with a user response and a token. A raw payload is
  accepted for a shape exactly when it is an object in which every field of the shape is
  present with a value of the declared type: a string for username, password, id and token;
  a string that is a syntactically valid email address for email; an object accepted as a
  user response for user. Every other payload gets a validation error.
\<close>

theorem schema_acceptance:
  "map fst UserCreate = [''username'', ''email'', ''password''] \<and>
   map fst UserLogin = [''email'', ''password''] \<and>
   map fst UserResponse = [''username'', ''email'', ''id''] \<and>
   ''password'' \<notin> set (map fst UserResponse) \<and>
   TokenResponse = [(''user'', Model UserResponse), (''token'', Str)] \<and>
   (validate valid_email UserCreate p = Accepted \<longleftrightarrow>
      (\<exists>kvs u e pw. p = JObj kvs \<and> map_of kvs ''username'' = Some (JStr u) \<and>
         map_of kvs ''email'' = Some (JStr e) \<and> valid_email e \<and>
         map_of kvs ''password'' = Some (JStr pw))) \<and>
   (validate valid_email UserLogin p = Accepted \<longleftrightarrow>
      (\<exists>kvs e pw. p = JObj kvs \<and> map_of kvs ''email'' = Some (JStr e) \<and> valid_email e \<and>
         map_of kvs ''password'' = Some (JStr pw))) \<and>
   (validate valid_email UserResponse p = Accepted \<longleftrightarrow>
      (\<exists>kvs u e i. p = JObj kvs \<and> map_of kvs ''username'' = Some (JStr u) \<and>
         map_of kvs ''email'' = Some (JStr e) \<and> valid_email e \<and>
         map_of kvs ''id'' = Some (JStr i))) \<and>
   (validate valid_email TokenResponse p = Accepted \<longleftrightarrow>
      (\<exists>kvs t ukvs u e i. p = JObj kvs \<and> map_of kvs ''token'' = Some (JStr t) \<and>
         map_of kvs ''user'' = Some (JObj ukvs) \<and> map_of ukvs ''username'' = Some (JStr u) \<and>
         map_of ukvs ''email'' = Some (JStr e) \<and> valid_email e \<and>
         map_of ukvs ''id'' = Some (JStr i))) \<and>
   (validate valid_email cls p = ValidationError \<longleftrightarrow> validate valid_email cls p \<noteq> Accepted)"
proof -
  have create: "validate valid_email UserCreate p = Accepted \<longleftrightarrow>
      (\<exists>kvs u e pw. p = JObj kvs \<and> map_of kvs ''username'' = Some (JStr u) \<and>
         map_of kvs ''email'' = Some (JStr e) \<and> valid_email e \<and>
         map_of kvs ''password'' = Some (JStr pw))"
    by (auto simp: validate_def UserCreate_def UserBase_def split: json.splits option.splits)
  have login: "validate valid_email UserLogin p = Accepted \<longleftrightarrow>
      (\<exists>kvs e pw. p = JObj kvs \<and> map_of kvs ''email'' = Some (JStr e) \<and> valid_email e \<and>
         map_of kvs ''password'' = Some (JStr pw))"
    by (auto simp: validate_def UserLogin_def split: json.splits option.splits)
  have response: "validate valid_email UserResponse q = Accepted \<longleftrightarrow>
      (\<exists>kvs u e i. q = JObj kvs \<and> map_of kvs ''username'' = Some (JStr u) \<and>
         map_of kvs ''email'' = Some (JStr e) \<and> valid_email e \<and>
         map_of kvs ''id'' = Some (JStr i))" for q
    by (auto simp: validate_def UserResponse_def UserBase_def split: json.splits option.splits)
  have nested: "admits valid_email (Model UserResponse) q \<longleftrightarrow>
      (\<exists>kvs u e i. q = JObj kvs \<and> map_of kvs ''username'' = Some (JStr u) \<and>
         map_of kvs ''email'' = Some (JStr e) \<and> valid_email e \<and>
         map_of kvs ''id'' = Some (JStr i))" for q
    using response[of q] by (simp add: validate_def split: if_splits)
  have token: "validate valid_email TokenResponse p = Accepted \<longleftrightarrow>
      (\<exists>kvs t ukvs u e i. p = JObj kvs \<and> map_of kvs ''token'' = Some (JStr t) \<and>
         map_of kvs ''user'' = Some (JObj ukvs) \<and> map_of ukvs ''username'' = Some (JStr u) \<and>
         map_of ukvs ''email'' = Some (JStr e) \<and> valid_email e \<and>
         map_of ukvs ''id'' = Some (JStr i))"
  proof (cases p)
    case (JObj kvs)
    have "validate valid_email TokenResponse p = Accepted \<longleftrightarrow>
        (\<exists>x. map_of kvs ''user'' = Some x \<and> admits valid_email (Model UserResponse) x) \<and>
        (\<exists>t. map_of kvs ''token'' = Some (JStr t))"
      using JObj
      by (auto simp: validate_def TokenResponse_def simp del: admits.simps(3)
          simp add: admits.simps(3)[of valid_email "[(''user'', Model UserResponse), (''token'', Str)]"]
          split: json.splits option.splits)
    then show ?thesis
      using JObj unfolding nested by auto
  qed (simp_all add: validate_def)
  have shapes: "map fst UserCreate = [''username'', ''email'', ''password'']"
    "map fst UserLogin = [''email'', ''password'']"
    "map fst UserResponse = [''username'', ''email'', ''id'']"
    "''password'' \<notin> set (map fst UserResponse)"
    "TokenResponse = [(''user'', Model UserResponse), (''token'', Str)]"
    by (simp_all add: UserCreate_def UserLogin_def UserResponse_def UserBase_def TokenResponse_def)
  have other: "validate valid_email cls p = ValidationError \<longleftrightarrow> validate valid_email cls p \<noteq> Accepted"
    by (simp add: validate_def)
  show ?thesis
    using shapes create login response[of p] token other by blast
qed

text \<open>A well-formed creation payload is accepted; one with a malformed email is not.\<close>

theorem schema_acceptance_witness:
  "validate has_at UserCreate
     (JObj [(''username'', JStr ''ann''), (''email'', JStr ''ann@example.com''),
            (''password'', JStr ''secret'')]) = Accepted \<and>
   validate has_at UserCreate
     (JObj [(''username'', JStr ''ann''), (''email'', JStr ''invalid-email''),
            (''password'', JStr ''secret'')]) = ValidationError"
proof -
  have "validate has_at UserCreate
     (JObj [(''username'', JStr ''ann''), (''email'', JStr ''ann@example.com''),
            (''password'', JStr ''secret'')]) = Accepted"
    using schema_acceptance[of has_at
        "JObj [(''username'', JStr ''ann''), (''email'', JStr ''ann@example.com''),
               (''password'', JStr ''secret'')]"]
    by (simp add: has_at_def)
  moreover have "validate has_at UserCreate
     (JObj [(''username'', JStr ''ann''), (''email'', JStr ''invalid-email''),
            (''password'', JStr ''secret'')]) = ValidationError"
    using schema_acceptance[of has_at
        "JObj [(''username'', JStr ''ann''), (''email'', JStr ''invalid-email''),
               (''password'', JStr ''secret'')]" UserCreate]
    by (simp add: has_at_def)
  ultimately show ?thesis by simp
qed

text \<open>
  The claim as first stated accepts a payload as soon as the required fields are present
  and every email field is a valid address. This creation payload has its three fields and
  a valid email, but its username is an array, not a string: it gets a validation error.
\<close>

theorem schema_acceptance_counterexample:
  "present_and_email_valid has_at (Model UserCreate)
     (JObj [(''username'', JArr []), (''email'', JStr ''ann@example.com''),
            (''password'', JStr ''secret'')]) \<and>
   validate has_at UserCreate
     (JObj [(''username'', JArr []), (''email'', JStr ''ann@example.com''),
            (''password'', JStr ''secret'')]) = ValidationError"
  by (simp add: validate_def UserCreate_def UserBase_def has_at_def)

end
